theory Spec2Isabelle
  imports Complex_Main "HOL-Library.Log_Nat"
begin

section \<open>Values\<close>

subsection \<open>Exceptions\<close>

text \<open>
  A check returns nothing or raises.  An exception is its class and its message; the
  message is the source's format string, with the \<open>name\<close> argument spliced in and every
  other replacement field left as written (\<open>{axis}\<close>, \<open>{array_shape}\<close>, ...).
\<close>

datatype exc_kind = TypeError | ValueError | RuntimeError | OverflowError | IndexError

type_synonym exc = "exc_kind \<times> string"

type_synonym 'a result = "exc + 'a"

definition ok :: "unit result" where
  "ok = Inr ()"

definition raises :: "exc_kind \<Rightarrow> 'a result \<Rightarrow> bool" where
  "raises k r = (case r of Inl (k', m) \<Rightarrow> k' = k | Inr v \<Rightarrow> False)"

definition and_then :: "'a result \<Rightarrow> ('a \<Rightarrow> 'b result) \<Rightarrow> 'b result" where
  "and_then r f = (case r of Inl e \<Rightarrow> Inl e | Inr v \<Rightarrow> f v)"

subsection \<open>Floating-point numbers\<close>

text \<open>
  A double is either finite, and then stands for its exact rational value, or one of
  the two infinities, or NaN.  The checks only compare doubles and take their floor;
  both are exact on doubles, so no rounding enters except where an integer is
  converted to a double (\<open>float64_of_int\<close>).
\<close>

datatype pyfloat = Fin rat | PInf | NInf | NaN

fun float_eq :: "pyfloat \<Rightarrow> pyfloat \<Rightarrow> bool" where
  "float_eq (Fin a) (Fin b) = (a = b)"
| "float_eq PInf PInf = True"
| "float_eq NInf NInf = True"
| "float_eq x y = False"

fun float_lt :: "pyfloat \<Rightarrow> pyfloat \<Rightarrow> bool" where
  "float_lt NaN y = False"
| "float_lt x NaN = False"
| "float_lt (Fin a) (Fin b) = (a < b)"
| "float_lt x PInf = (x \<noteq> PInf)"
| "float_lt NInf y = (y \<noteq> NInf)"
| "float_lt x y = False"

definition float_le :: "pyfloat \<Rightarrow> pyfloat \<Rightarrow> bool" where
  "float_le x y = (float_lt x y \<or> float_eq x y)"

fun float_floor :: "pyfloat \<Rightarrow> pyfloat" where
  "float_floor (Fin a) = Fin (of_int \<lfloor>a\<rfloor>)"
| "float_floor x = x"

fun float_isfinite :: "pyfloat \<Rightarrow> bool" where
  "float_isfinite (Fin a) = True"
| "float_isfinite x = False"

text \<open>
  Conversion of an integer to the nearest double, ties to even: exact up to 53 bits,
  rounded on the bits below the 53rd otherwise.
\<close>

definition float64_of_int :: "int \<Rightarrow> pyfloat" where
  "float64_of_int i =
     (let a = \<bar>i\<bar>; n = bitlen a in
      if n \<le> 53 then Fin (of_int i)
      else
        let sh = nat (n - 53);
            q = a div 2 ^ sh;
            r = a mod 2 ^ sh;
            half = 2 ^ (sh - 1);
            q' = (if half < r \<or> (r = half \<and> odd q) then q + 1 else q);
            v = q' * 2 ^ sh
        in if 2 ^ 1024 \<le> v then (if i < 0 then NInf else PInf)
           else Fin (of_int (sgn i * v)))"

subsection \<open>Arrays\<close>

text \<open>
  A NumPy array is its shape and its elements, listed in row-major order of their
  indices whatever the order they lie in memory; the buffer's constructor is the
  array's dtype (\<open>bool\<close>, the default integer type, \<open>float64\<close>).  Integer elements are
  their values.  The one thing the checks ask of the memory layout is whether the
  array is Fortran-contiguous, which decides the order of \<open>ravel(order='A')\<close>:
  \<open>NDArrayF\<close> is an array that is Fortran-contiguous and not C-contiguous, \<open>NDArray\<close>
  any other array (a C-contiguous one, as NumPy builds them by default, or a view
  that is contiguous in neither order).
\<close>

datatype npdtype = dt_bool | dt_int64 | dt_float64

datatype scalar = SBool bool | SInt int | SFloat pyfloat

datatype adata = Bools "bool list" | Ints "int list" | Floats "pyfloat list"

datatype ndarray =
    NDArray (arr_shape: "nat list") (arr_data: adata)
  | NDArrayF (arr_shape: "nat list") (arr_data: adata)

fun data_dtype :: "adata \<Rightarrow> npdtype" where
  "data_dtype (Bools bs) = dt_bool"
| "data_dtype (Ints is) = dt_int64"
| "data_dtype (Floats fs) = dt_float64"

fun elems :: "adata \<Rightarrow> scalar list" where
  "elems (Bools bs) = map SBool bs"
| "elems (Ints is) = map SInt is"
| "elems (Floats fs) = map SFloat fs"

definition arr_dtype :: "ndarray \<Rightarrow> npdtype" where
  "arr_dtype a = data_dtype (arr_data a)"

definition arr_elems :: "ndarray \<Rightarrow> scalar list" where
  "arr_elems a = elems (arr_data a)"

definition arr_ndim :: "ndarray \<Rightarrow> nat" where
  "arr_ndim a = length (arr_shape a)"

definition arr_size :: "ndarray \<Rightarrow> nat" where
  "arr_size a = length (arr_elems a)"

text \<open>An array is well formed when its buffer has one element per index.\<close>

definition wf_array :: "ndarray \<Rightarrow> bool" where
  "wf_array a = (arr_size a = prod_list (arr_shape a))"

fun scalar_data :: "scalar \<Rightarrow> adata" where
  "scalar_data (SBool b) = Bools [b]"
| "scalar_data (SInt i) = Ints [i]"
| "scalar_data (SFloat f) = Floats [f]"

definition array0 :: "scalar \<Rightarrow> ndarray" where
  "array0 s = NDArray [] (scalar_data s)"

text \<open>
  Comparison of two elements after NumPy's type promotion: with a double on either
  side both sides are doubles, otherwise both are integers (\<open>True\<close> is 1).
\<close>

fun is_float :: "scalar \<Rightarrow> bool" where
  "is_float (SFloat f) = True"
| "is_float s = False"

fun as_int :: "scalar \<Rightarrow> int" where
  "as_int (SBool b) = (if b then 1 else 0)"
| "as_int (SInt i) = i"
| "as_int (SFloat f) = 0"

fun as_float :: "scalar \<Rightarrow> pyfloat" where
  "as_float (SBool b) = Fin (if b then 1 else 0)"
| "as_float (SInt i) = float64_of_int i"
| "as_float (SFloat f) = f"

datatype cmpop = Le | Lt | Ge | Gt | Eq

fun int_cmp :: "cmpop \<Rightarrow> int \<Rightarrow> int \<Rightarrow> bool" where
  "int_cmp Le x y = (x \<le> y)"
| "int_cmp Lt x y = (x < y)"
| "int_cmp Ge x y = (y \<le> x)"
| "int_cmp Gt x y = (y < x)"
| "int_cmp Eq x y = (x = y)"

fun float_cmp :: "cmpop \<Rightarrow> pyfloat \<Rightarrow> pyfloat \<Rightarrow> bool" where
  "float_cmp Le x y = float_le x y"
| "float_cmp Lt x y = float_lt x y"
| "float_cmp Ge x y = float_le y x"
| "float_cmp Gt x y = float_lt y x"
| "float_cmp Eq x y = float_eq x y"

definition scalar_cmp :: "cmpop \<Rightarrow> scalar \<Rightarrow> scalar \<Rightarrow> bool" where
  "scalar_cmp op x y =
     (if is_float x \<or> is_float y then float_cmp op (as_float x) (as_float y)
      else int_cmp op (as_int x) (as_int y))"

text \<open>\<open>np.all(a op b)\<close> for two arrays of one shape.\<close>

definition all_cmp :: "cmpop \<Rightarrow> scalar list \<Rightarrow> scalar list \<Rightarrow> bool" where
  "all_cmp op xs ys = list_all2 (scalar_cmp op) xs ys"

text \<open>
  \<open>np.floor\<close> leaves booleans and integers as they are (or turns them into the doubles
  of the same value, which compare equal to them) and takes the floor of each double.
\<close>

fun data_floor :: "adata \<Rightarrow> adata" where
  "data_floor (Bools bs) = Bools bs"
| "data_floor (Ints is) = Ints is"
| "data_floor (Floats fs) = Floats (map float_floor fs)"

fun np_floor :: "ndarray \<Rightarrow> ndarray" where
  "np_floor (NDArray sh d) = NDArray sh (data_floor d)"
| "np_floor (NDArrayF sh d) = NDArrayF sh (data_floor d)"

definition np_array_equal :: "ndarray \<Rightarrow> ndarray \<Rightarrow> bool" where
  "np_array_equal a b =
     (arr_shape a = arr_shape b \<and> all_cmp Eq (arr_elems a) (arr_elems b))"

fun scalar_isfinite :: "scalar \<Rightarrow> bool" where
  "scalar_isfinite (SFloat f) = float_isfinite f"
| "scalar_isfinite s = True"

subsection \<open>Python objects\<close>

text \<open>
  The classes the checks know, and user classes with one base.  \<open>supertypes t\<close> lists
  every class \<open>c\<close> with \<open>issubclass(t, c)\<close>, the abstract base classes of \<open>numbers\<close> and
  \<open>collections.abc\<close> included.
\<close>

datatype pytype =
    T_object | T_NoneType | T_bool | T_int | T_float | T_str | T_tuple | T_list
  | T_ndarray | T_iterator | T_type | T_Number | T_Sequence | T_Iterable
  | T_class string pytype

fun supertypes :: "pytype \<Rightarrow> pytype list" where
  "supertypes T_object = [T_object]"
| "supertypes T_NoneType = [T_NoneType, T_object]"
| "supertypes T_bool = [T_bool, T_int, T_Number, T_object]"
| "supertypes T_int = [T_int, T_Number, T_object]"
| "supertypes T_float = [T_float, T_Number, T_object]"
| "supertypes T_str = [T_str, T_Sequence, T_Iterable, T_object]"
| "supertypes T_tuple = [T_tuple, T_Sequence, T_Iterable, T_object]"
| "supertypes T_list = [T_list, T_Sequence, T_Iterable, T_object]"
| "supertypes T_ndarray = [T_ndarray, T_Iterable, T_object]"
| "supertypes T_iterator = [T_iterator, T_Iterable, T_object]"
| "supertypes T_type = [T_type, T_object]"
| "supertypes T_Number = [T_Number, T_object]"
| "supertypes T_Sequence = [T_Sequence, T_Iterable, T_object]"
| "supertypes T_Iterable = [T_Iterable, T_object]"
| "supertypes (T_class n b) = T_class n b # supertypes b"

definition issubclass :: "pytype \<Rightarrow> pytype \<Rightarrow> bool" where
  "issubclass t c = (c \<in> set (supertypes t))"

text \<open>
  An object is \<open>None\<close>, a number, a string, a tuple, a list, an array, a one-shot
  iterator (with the items it has yet to yield), a class, a plain \<open>object()\<close>, or an
  instance \<open>PSub n v\<close> of the user class \<open>n\<close> derived from the class of \<open>v\<close>, which
  behaves as \<open>v\<close> does.
\<close>

datatype pyval =
    PNone | PBool bool | PInt int | PFloat pyfloat | PStr string
  | PTuple "pyval list" | PList "pyval list"
  | PArray ndarray | PIter "pyval list" | PType pytype | PObject
  | PSub string pyval

fun type_of :: "pyval \<Rightarrow> pytype" where
  "type_of PNone = T_NoneType"
| "type_of (PBool b) = T_bool"
| "type_of (PInt i) = T_int"
| "type_of (PFloat f) = T_float"
| "type_of (PStr s) = T_str"
| "type_of (PTuple xs) = T_tuple"
| "type_of (PList xs) = T_list"
| "type_of (PArray a) = T_ndarray"
| "type_of (PIter xs) = T_iterator"
| "type_of (PType t) = T_type"
| "type_of PObject = T_object"
| "type_of (PSub n v) = T_class n (type_of v)"

definition isinstance :: "pyval \<Rightarrow> pytype \<Rightarrow> bool" where
  "isinstance v c = issubclass (type_of v) c"


text \<open>
  Python's \<open>==\<close> on the objects the checks compare: numbers by value across \<open>bool\<close>,
  \<open>int\<close> and \<open>float\<close> (exactly, so \<open>3 == 3.0\<close>), \<open>None\<close>, strings and classes with
  themselves, tuples with tuples and lists with lists element by element.  Iterators
  and plain objects compare by identity and are equal to none of the literals the
  checks compare with.  With an array on either side, alone or inside a tuple or a
  list, NumPy compares element by element and the answer is the truth value of an
  array, which depends on its size and on the version of NumPy: that comparison is
  left unspecified (\<open>undefined\<close>), so that nothing is proved of it.
\<close>

fun strip_sub :: "pyval \<Rightarrow> pyval" where
  "strip_sub (PSub n v) = strip_sub v"
| "strip_sub v = v"

fun num_value :: "pyval \<Rightarrow> pyfloat option" where
  "num_value (PBool b) = Some (Fin (if b then 1 else 0))"
| "num_value (PInt i) = Some (Fin (of_int i))"
| "num_value (PFloat f) = Some f"
| "num_value v = None"

fun has_array :: "pyval \<Rightarrow> bool" where
  "has_array (PArray a) = True"
| "has_array (PTuple xs) = list_ex has_array xs"
| "has_array (PList xs) = list_ex has_array xs"
| "has_array (PSub n v) = has_array v"
| "has_array v = False"

fun eq_values :: "pyval \<Rightarrow> pyval \<Rightarrow> bool" where
  "eq_values (PSub n v) w = eq_values v w"
| "eq_values PNone w = (strip_sub w = PNone)"
| "eq_values (PBool a) w =
     (case num_value (strip_sub w) of Some g \<Rightarrow> float_eq (Fin (if a then 1 else 0)) g | None \<Rightarrow> False)"
| "eq_values (PInt i) w =
     (case num_value (strip_sub w) of Some g \<Rightarrow> float_eq (Fin (of_int i)) g | None \<Rightarrow> False)"
| "eq_values (PFloat f) w =
     (case num_value (strip_sub w) of Some g \<Rightarrow> float_eq f g | None \<Rightarrow> False)"
| "eq_values (PStr s) w = (strip_sub w = PStr s)"
| "eq_values (PTuple xs) w =
     (case strip_sub w of PTuple ys \<Rightarrow> list_all2 eq_values xs ys | _ \<Rightarrow> False)"
| "eq_values (PList xs) w =
     (case strip_sub w of PList ys \<Rightarrow> list_all2 eq_values xs ys | _ \<Rightarrow> False)"
| "eq_values (PType t) w = (strip_sub w = PType t)"
| "eq_values (PArray a) w = undefined"
| "eq_values (PIter xs) w = False"
| "eq_values PObject w = False"

definition py_eq :: "pyval \<Rightarrow> pyval \<Rightarrow> bool" where
  "py_eq v w = (if has_array v \<or> has_array w then undefined else eq_values v w)"

text \<open>\<open>x in [..]\<close> on a list literal.\<close>

definition py_in :: "pyval \<Rightarrow> pyval list \<Rightarrow> bool" where
  "py_in v xs = list_ex (py_eq v) xs"

text \<open>The value of an instance of \<open>int\<close> (a \<open>bool\<close> included), and of \<open>str\<close>.\<close>

fun int_value :: "pyval \<Rightarrow> int" where
  "int_value (PBool b) = (if b then 1 else 0)"
| "int_value (PInt i) = i"
| "int_value (PSub n v) = int_value v"
| "int_value v = 0"

fun str_value :: "pyval \<Rightarrow> string" where
  "str_value (PStr s) = s"
| "str_value (PSub n v) = str_value v"
| "str_value v = []"

subsection \<open>Coercion to an array\<close>

text \<open>
  Modelled from the spec: \<open>_cast_to_numpy\<close> lives in \<open>_cast_array.py\<close>, which is not
  among the sources.  The spec calls it the numeric coercion collaborator: "given any
  scalar/array-like value, returns a concrete numeric array".  A number becomes a 0-d
  array, a sequence of array-likes of one common shape the array that stacks them (an
  empty sequence an empty array of doubles), an array itself.  A sequence whose items
  differ in shape cannot be cast (\<open>ValueError\<close>); an object that is no array-like of
  numbers is refused with \<open>TypeError\<close>.
\<close>

fun dtype_rank :: "npdtype \<Rightarrow> nat" where
  "dtype_rank dt_bool = 0"
| "dtype_rank dt_int64 = 1"
| "dtype_rank dt_float64 = 2"

definition promote :: "npdtype \<Rightarrow> npdtype \<Rightarrow> npdtype" where
  "promote a b = (if dtype_rank a \<le> dtype_rank b then b else a)"

fun of_scalars :: "npdtype \<Rightarrow> scalar list \<Rightarrow> adata" where
  "of_scalars dt_bool xs = Bools (map (\<lambda>x. as_int x \<noteq> 0) xs)"
| "of_scalars dt_int64 xs = Ints (map as_int xs)"
| "of_scalars dt_float64 xs = Floats (map as_float xs)"

fun collect :: "'a result list \<Rightarrow> 'a list result" where
  "collect [] = Inr []"
| "collect (r # rs) =
     (case r of Inl e \<Rightarrow> Inl e
      | Inr v \<Rightarrow> (case collect rs of Inl e \<Rightarrow> Inl e | Inr vs \<Rightarrow> Inr (v # vs)))"

definition np_stack :: "ndarray list \<Rightarrow> ndarray result" where
  "np_stack arrs =
     (case arrs of
        [] \<Rightarrow> Inr (NDArray [0] (Floats []))
      | a # as \<Rightarrow>
          if list_all (\<lambda>b. arr_shape b = arr_shape a) as
          then Inr (NDArray (length arrs # arr_shape a)
                     (of_scalars (foldr promote (map arr_dtype as) (arr_dtype a))
                        (concat (map arr_elems arrs))))
          else Inl (ValueError, ''Input cannot be cast as {np.ndarray}.''))"

fun cast_to_numpy :: "pyval \<Rightarrow> ndarray result" where
  "cast_to_numpy (PBool b) = Inr (array0 (SBool b))"
| "cast_to_numpy (PInt i) = Inr (array0 (SInt i))"
| "cast_to_numpy (PFloat f) = Inr (array0 (SFloat f))"
| "cast_to_numpy (PArray a) = Inr a"
| "cast_to_numpy (PTuple xs) = and_then (collect (map cast_to_numpy xs)) np_stack"
| "cast_to_numpy (PList xs) = and_then (collect (map cast_to_numpy xs)) np_stack"
| "cast_to_numpy (PSub n v) = cast_to_numpy v"
| "cast_to_numpy v = Inl (TypeError, ''Object arrays are not supported.'')"

text \<open>
  \<open>array if isinstance(array, np.ndarray) else _cast_to_numpy(array)\<close>, the first line
  of most checks.
\<close>

definition as_array :: "pyval \<Rightarrow> ndarray result" where
  "as_array v = (case v of PArray a \<Rightarrow> Inr a | _ \<Rightarrow> cast_to_numpy v)"

text \<open>
  \<open>np.shape\<close>: the shape of an array, of a sequence of items of one shape, and \<open>()\<close>
  for any other object.
\<close>

definition stack_shape :: "nat list list \<Rightarrow> nat list result" where
  "stack_shape ss =
     (case ss of
        [] \<Rightarrow> Inr [0]
      | s # rest \<Rightarrow>
          if list_all (\<lambda>t. t = s) rest then Inr (length ss # s)
          else Inl (ValueError, ''setting an array element with a sequence.''))"

fun np_shape :: "pyval \<Rightarrow> nat list result" where
  "np_shape (PArray a) = Inr (arr_shape a)"
| "np_shape (PTuple xs) = and_then (collect (map np_shape xs)) stack_shape"
| "np_shape (PList xs) = and_then (collect (map np_shape xs)) stack_shape"
| "np_shape (PSub n v) = np_shape v"
| "np_shape v = Inr []"

text \<open>
  \<open>a[i]\<close> on a 1-d array: a NumPy scalar, which stands here as the 0-d array of the
  same dtype and value.
\<close>

definition item :: "ndarray \<Rightarrow> nat \<Rightarrow> pyval result" where
  "item a i =
     (if i < length (arr_elems a) then Inr (PArray (array0 (arr_elems a ! i)))
      else Inl (IndexError, ''index {i} is out of bounds for axis 0 with size {n}''))"

text \<open>
  \<open>np.all(a op v)\<close> for an array \<open>a\<close> and a 0-d array \<open>v\<close>, which NumPy broadcasts:
  every element of \<open>a\<close> against the element of \<open>v\<close>.
\<close>

definition np_all :: "cmpop \<Rightarrow> ndarray \<Rightarrow> ndarray \<Rightarrow> bool" where
  "np_all op a v =
     list_all (\<lambda>x. list_all (\<lambda>y. scalar_cmp op x y) (arr_elems v)) (arr_elems a)"

text \<open>
  \<open>x in a\<close> for an array \<open>a\<close> and an integer \<open>x\<close> is \<open>(a == x).any()\<close>;
  \<open>np.atleast_1d\<close> turns a 0-d array into an array of one element; \<open>len(a)\<close> is the
  first dimension.
\<close>

definition np_contains :: "ndarray \<Rightarrow> int \<Rightarrow> bool" where
  "np_contains a x = list_ex (\<lambda>e. scalar_cmp Eq e (SInt x)) (arr_elems a)"

definition atleast :: "ndarray \<Rightarrow> ndarray" where
  "atleast a = (if arr_shape a = [] then NDArray [1] (arr_data a) else a)"

definition np_atleast_1d :: "pyval \<Rightarrow> ndarray result" where
  "np_atleast_1d v = and_then (cast_to_numpy v) (\<lambda>a. Inr (atleast a))"

definition np_len :: "ndarray \<Rightarrow> nat" where
  "np_len a = (case arr_shape a of [] \<Rightarrow> 0 | n # rest \<Rightarrow> n)"

text \<open>
  Basic slicing along one axis: of an array of shape \<open>sh\<close> with elements \<open>d\<close>, the
  elements whose index along axis \<open>k\<close> lies in \<open>[lo, hi)\<close>, in row-major order.  The
  buffer is \<open>outer\<close> blocks of \<open>n * inner\<close> elements, \<open>n\<close> the length of the axis; the
  slice keeps of each block the elements from \<open>lo * inner\<close> up to \<open>hi * inner\<close>.
\<close>

definition axis_slice :: "nat list \<Rightarrow> nat \<Rightarrow> nat \<Rightarrow> nat \<Rightarrow> 'a list \<Rightarrow> 'a list" where
  "axis_slice sh k lo hi d =
     (let outer = prod_list (take k sh); n = sh ! k; inner = prod_list (drop (Suc k) sh) in
      concat (map (\<lambda>b. take ((hi - lo) * inner) (drop (b * n * inner + lo * inner) d))
                [0..<outer]))"

text \<open>
  \<open>a.ravel(order='A')\<close> reads the elements in Fortran index order, the first index
  changing fastest, if the array is Fortran-contiguous, and in row-major order
  otherwise.  In Fortran order an array of shape \<open>n # rest\<close> is its \<open>n\<close> sub-arrays
  along the first axis, each in Fortran order, taken one element of each in turn.
\<close>

fun f_order :: "nat list \<Rightarrow> 'a list \<Rightarrow> 'a list" where
  "f_order [] d = d"
| "f_order (n # rest) d =
     concat (transpose
       (map (\<lambda>i. f_order rest (take (prod_list rest) (drop (i * prod_list rest) d)))
          [0..<n]))"

fun data_f_order :: "nat list \<Rightarrow> adata \<Rightarrow> adata" where
  "data_f_order sh (Bools bs) = Bools (f_order sh bs)"
| "data_f_order sh (Ints is) = Ints (f_order sh is)"
| "data_f_order sh (Floats fs) = Floats (f_order sh fs)"

fun ravel :: "ndarray \<Rightarrow> ndarray" where
  "ravel (NDArray sh d) = NDArray [length (elems d)] d"
| "ravel (NDArrayF sh d) = NDArray [length (elems d)] (data_f_order sh d)"

text \<open>
  \<open>int(x)\<close> on a number, and the position \<open>xs[i] = ...\<close> assigns to in a list of
  length \<open>n\<close>: the index must be an \<open>int\<close>, a negative one counts from the end.
\<close>

fun py_int :: "pyval \<Rightarrow> int result" where
  "py_int (PBool b) = Inr (if b then 1 else 0)"
| "py_int (PInt i) = Inr i"
| "py_int (PFloat (Fin r)) = Inr (if 0 \<le> r then \<lfloor>r\<rfloor> else \<lceil>r\<rceil>)"
| "py_int (PFloat NaN) = Inl (ValueError, ''cannot convert float NaN to integer'')"
| "py_int (PFloat f) = Inl (OverflowError, ''cannot convert float infinity to integer'')"
| "py_int (PSub n v) = py_int v"
| "py_int v = Inl (TypeError, ''int() argument must be a string, a bytes-like object or a real number'')"

definition list_index :: "nat \<Rightarrow> pyval \<Rightarrow> nat result" where
  "list_index n i =
     (if \<not> isinstance i T_int
      then Inl (TypeError, ''list indices must be integers or slices, not {type}'')
      else
        let j = (if int_value i < 0 then int_value i + int n else int_value i) in
        if 0 \<le> j \<and> j < int n then Inr (nat j)
        else Inl (IndexError, ''list assignment index out of range''))"

fun tuple_items :: "pyval \<Rightarrow> pyval list" where
  "tuple_items (PTuple xs) = xs"
| "tuple_items (PSub n v) = tuple_items v"
| "tuple_items v = []"

fun list_items :: "pyval \<Rightarrow> pyval list" where
  "list_items (PList xs) = xs"
| "list_items (PSub n v) = list_items v"
| "list_items v = []"

section \<open>The checks\<close>

subsection \<open>check_subdtype\<close>

text \<open>
  The scalar types of NumPy the checks name, and the concrete dtypes under them.
  The input is a dtype-like (\<open>np.dtype(input_obj)\<close> succeeds) or an array-like (it
  raises \<open>TypeError\<close>, and the dtype is the one of \<open>np.asanyarray(input_obj)\<close>).
\<close>

datatype nptype = np_generic | np_number | np_integer | np_floating | np_bool | np_int64 | np_float64

fun dtype_mro :: "npdtype \<Rightarrow> nptype list" where
  "dtype_mro dt_bool = [np_bool, np_generic]"
| "dtype_mro dt_int64 = [np_int64, np_integer, np_number, np_generic]"
| "dtype_mro dt_float64 = [np_float64, np_floating, np_number, np_generic]"

definition np_issubdtype :: "npdtype \<Rightarrow> nptype \<Rightarrow> bool" where
  "np_issubdtype d base = (base \<in> set (dtype_mro d))"

datatype dtype_or_array = DTypeLike npdtype | ArrayLike pyval

datatype base_dtype = Base nptype | Bases "nptype list"

definition check_subdtype :: "dtype_or_array \<Rightarrow> base_dtype \<Rightarrow> string \<Rightarrow> unit result" where
  "check_subdtype input_obj base_dtype name =
     and_then
       (case input_obj of
          DTypeLike d \<Rightarrow> Inr d
        | ArrayLike v \<Rightarrow> and_then (cast_to_numpy v) (\<lambda>a. Inr (arr_dtype a)))
       (\<lambda>input_dtype.
          let bases = (case base_dtype of Base b \<Rightarrow> [b] | Bases bs \<Rightarrow> bs) in
          if \<not> list_ex (np_issubdtype input_dtype) bases
          then
            Inl (TypeError,
              name @ '' has incorrect dtype of '{input_dtype.name}'. '' @
              (if length bases = 1 then ''The dtype must be a subtype of {base_dtype[0]}.''
               else ''The dtype must be a subtype of at least one of \<newline>{base_dtype}.''))
          else ok)"

subsection \<open>check_real, check_finite, check_integer\<close>

definition check_real :: "pyval \<Rightarrow> string \<Rightarrow> unit result" where
  "check_real array name =
     and_then (as_array array)
       (\<lambda>a.
          if arr_dtype a \<in> {dt_int64, dt_float64} then ok
          else
            (case check_subdtype (ArrayLike (PArray a)) (Bases [np_floating, np_integer]) name of
               Inl (TypeError, m) \<Rightarrow> Inl (TypeError, name @ '' must have real numbers.'')
             | r \<Rightarrow> r))"

definition check_finite :: "pyval \<Rightarrow> string \<Rightarrow> unit result" where
  "check_finite array name =
     and_then (as_array array)
       (\<lambda>a.
          if \<not> list_all scalar_isfinite (arr_elems a)
          then Inl (ValueError, name @ '' must have finite values.'')
          else ok)"

definition check_integer :: "pyval \<Rightarrow> bool \<Rightarrow> string \<Rightarrow> unit result" where
  "check_integer array strict name =
     and_then (as_array array)
       (\<lambda>a.
          if strict then check_subdtype (ArrayLike (PArray a)) (Base np_integer) ''Input''
          else if \<not> np_array_equal a (np_floor a)
          then Inl (ValueError, name @ '' must have integer-like values.'')
          else ok)"


subsection \<open>check_instance and its specialisations\<close>

text \<open>
  \<open>classinfo\<close> is a class, a tuple of classes, or a \<open>typing.Union\<close> of classes, which
  the check unwraps to the tuple of its arguments.
\<close>

datatype classinfo = Cls pytype | ClsTuple "pytype list" | ClsUnion "pytype list"

definition check_instance :: "pyval \<Rightarrow> classinfo \<Rightarrow> bool \<Rightarrow> pyval \<Rightarrow> unit result" where
  "check_instance obj classinfo allow_subclass name =
     (if \<not> isinstance name T_str
      then Inl (TypeError, ''Name must be a string, got {type(name)} instead.'')
      else
        let classes = (case classinfo of Cls t \<Rightarrow> Inl t | ClsTuple ts \<Rightarrow> Inr ts | ClsUnion ts \<Rightarrow> Inr ts);
            num_classes = (case classes of Inr ts \<Rightarrow> length ts | Inl t \<Rightarrow> 1);
            is_instance = (case classes of Inr ts \<Rightarrow> list_ex (isinstance obj) ts | Inl t \<Rightarrow> isinstance obj t);
            msg_body =
              (if allow_subclass \<and> \<not> is_instance
               then Some (if num_classes = 1 then ''must be an instance of''
                          else ''must be an instance of any type'')
               else if \<not> allow_subclass
               then (case classes of
                       Inr ts \<Rightarrow>
                         if type_of obj \<notin> set ts then Some ''must have one of the following types''
                         else None
                     | Inl t \<Rightarrow> if type_of obj \<noteq> t then Some ''must have type'' else None)
               else None)
        in case msg_body of
             Some body \<Rightarrow>
               Inl (TypeError, str_value name @ '' '' @ body @ '' {classinfo}. Got {type(obj)} instead.'')
           | None \<Rightarrow> ok)"

definition check_number :: "pyval \<Rightarrow> pyval \<Rightarrow> unit result" where
  "check_number num name = check_instance num (Cls T_Number) True name"

definition check_string :: "pyval \<Rightarrow> bool \<Rightarrow> pyval \<Rightarrow> unit result" where
  "check_string obj allow_subclass name = check_instance obj (Cls T_str) allow_subclass name"

definition check_sequence :: "pyval \<Rightarrow> pyval \<Rightarrow> unit result" where
  "check_sequence obj name = check_instance obj (Cls T_Sequence) True name"

definition check_iterable :: "pyval \<Rightarrow> pyval \<Rightarrow> unit result" where
  "check_iterable obj name = check_instance obj (Cls T_Iterable) True name"

definition check_type :: "pyval \<Rightarrow> classinfo \<Rightarrow> pyval \<Rightarrow> unit result" where
  "check_type obj classinfo name = check_instance obj classinfo False name"

subsection \<open>check_iterable_items\<close>

text \<open>
  Iterating is the one thing a check does to an argument that the argument can
  notice.  A tuple, a list or a string hands out a fresh iterator each time and
  stays as it is; a one-shot iterator is advanced past every item it yields.  So
  \<open>check_iterable_items\<close> returns, next to its outcome, the iterable as the call leaves
  it.  A 0-d array cannot be iterated.  The items of any other array are NumPy
  scalars or views of the array, which are not among the objects described here:
  what iterating such an array yields is left unspecified (\<open>undefined\<close>), so that
  nothing is proved of it.
\<close>

fun iter_items :: "pyval \<Rightarrow> pyval list result" where
  "iter_items (PTuple xs) = Inr xs"
| "iter_items (PList xs) = Inr xs"
| "iter_items (PIter xs) = Inr xs"
| "iter_items (PStr s) = Inr (map (\<lambda>c. PStr [c]) s)"
| "iter_items (PArray a) =
     (if arr_shape a = [] then Inl (TypeError, ''iteration over a 0-d array'')
      else undefined)"
| "iter_items (PSub n v) = iter_items v"
| "iter_items v = Inl (TypeError, ''object is not iterable'')"

fun after_iter :: "pyval \<Rightarrow> pyval list \<Rightarrow> pyval" where
  "after_iter (PIter xs) rest = PIter rest"
| "after_iter (PSub n v) rest = PSub n (after_iter v rest)"
| "after_iter v rest = v"

text \<open>
  \<open>any(check_instance(item, ...) for item in iterable_obj)\<close>: \<open>check_instance\<close> returns
  \<open>None\<close>, so \<open>any\<close> runs on until an item raises or the items end.  The second
  component is what the iteration has not reached.
\<close>

fun check_items :: "pyval list \<Rightarrow> classinfo \<Rightarrow> bool \<Rightarrow> pyval \<Rightarrow> unit result \<times> pyval list" where
  "check_items [] item_type allow_subclass name = (ok, [])"
| "check_items (x # xs) item_type allow_subclass name =
     (case check_instance x item_type allow_subclass name of
        Inl e \<Rightarrow> (Inl e, xs)
      | Inr u \<Rightarrow> check_items xs item_type allow_subclass name)"

definition check_iterable_items ::
  "pyval \<Rightarrow> classinfo \<Rightarrow> bool \<Rightarrow> pyval \<Rightarrow> unit result \<times> pyval" where
  "check_iterable_items iterable_obj item_type allow_subclass name =
     (case check_iterable iterable_obj name of
        Inl e \<Rightarrow> (Inl e, iterable_obj)
      | Inr u \<Rightarrow>
          (case iter_items iterable_obj of
             Inl e \<Rightarrow> (Inl e, iterable_obj)
           | Inr items \<Rightarrow>
               (case check_items items item_type allow_subclass
                       (PStr (''All items of '' @ str_value name)) of
                  (r, rest) \<Rightarrow> (r, after_iter iterable_obj rest))))"

subsection \<open>check_shape, check_greater_than and the shape normalisation\<close>

text \<open>
  \<open>check_shape\<close> normalises each candidate with \<open>_validate_shape_value\<close>, which on a
  bad candidate calls \<open>check_greater_than\<close> to raise; \<open>check_greater_than\<close> validates
  its bound with \<open>_validate_real_value\<close>, which calls \<open>check_shape\<close> with the shape
  \<open>()\<close>.  The five functions are defined together.  The recursion ends because \<open>()\<close>
  is one of the common shapes \<open>_validate_shape_value\<close> returns at once.
\<close>

definition is_valid_dim :: "pyval \<Rightarrow> bool" where
  "is_valid_dim d = (isinstance d T_int \<and> - 1 \<le> int_value d)"

definition common_shapes :: "pyval list" where
  "common_shapes =
     [PTuple [], PTuple [PInt (- 1)], PTuple [PInt 1], PTuple [PInt 3], PTuple [PInt 2],
      PTuple [PInt 1, PInt 3], PTuple [PInt (- 1), PInt 3]]"

definition shape_is_allowed :: "nat list \<Rightarrow> pyval \<Rightarrow> bool" where
  "shape_is_allowed a b =
     (length a = length (tuple_items b)
      \<and> list_all (\<lambda>(x, y). if py_eq (PInt (int x)) y then True else py_eq y (PInt (- 1)))
          (zip a (tuple_items b)))"

text \<open>The measure of the termination proof: what a call may still cost.\<close>

definition vsv_cost :: "pyval \<Rightarrow> nat" where
  "vsv_cost s =
     (if s = PNone \<or> py_in s common_shapes \<or> is_valid_dim s
         \<or> (isinstance s T_tuple \<and> list_all is_valid_dim (tuple_items s))
      then 0 else 6)"

definition loop_cost :: "pyval list \<Rightarrow> nat" where
  "loop_cost ss = sum_list (map (\<lambda>s. Suc (vsv_cost s)) ss)"

lemma and_then_cong [fundef_cong]:
  "r = r' \<Longrightarrow> (\<And>v. r' = Inr v \<Longrightarrow> f v = f' v) \<Longrightarrow> and_then r f = and_then r' f'"
  by (simp add: and_then_def split: sum.splits)

function validate_shape_value :: "pyval \<Rightarrow> pyval result"
  and check_shape_loop :: "nat list \<Rightarrow> pyval list \<Rightarrow> exc \<Rightarrow> unit result"
  and check_shape :: "pyval \<Rightarrow> pyval \<Rightarrow> string \<Rightarrow> unit result"
  and validate_real_value :: "pyval \<Rightarrow> string \<Rightarrow> ndarray result"
  and check_greater_than :: "pyval \<Rightarrow> pyval \<Rightarrow> bool \<Rightarrow> string \<Rightarrow> unit result"
where
  "validate_shape_value shape =
     (if shape = PNone
      then Inl (TypeError, ''`None` is not a valid shape. Use `()` instead.'')
      else if py_in shape common_shapes then Inr shape
      else if is_valid_dim shape then Inr (PTuple [shape])
      else if isinstance shape T_tuple \<and> list_all is_valid_dim (tuple_items shape) then Inr shape
      else
        and_then (check_instance shape (ClsTuple [T_int, T_tuple]) True (PStr ''Shape''))
          (\<lambda>u. and_then
             (if isinstance shape T_int then Inr (PTuple [shape])
              else and_then (fst (check_iterable_items shape (Cls T_int) True (PStr ''Shape'')))
                     (\<lambda>u. Inr shape))
             (\<lambda>shape. and_then (check_greater_than shape (PInt (- 1)) False ''Shape'')
                (\<lambda>u. Inl (RuntimeError, ''This line should not be reachable.'')))))"
| "check_shape_loop array_shape [] err = Inl err"
| "check_shape_loop array_shape (input_shape # rest) err =
     and_then (validate_shape_value input_shape)
       (\<lambda>valid_shape.
          if shape_is_allowed array_shape valid_shape then ok
          else check_shape_loop array_shape rest err)"
| "check_shape array shape name =
     (let shape = (if isinstance shape T_list then list_items shape else [shape]) in
      and_then (np_shape array)
        (\<lambda>array_shape.
           check_shape_loop array_shape shape
             (ValueError,
              name @ '' has shape {array_shape} which is not allowed. '' @
              (if length shape = 1 then ''Shape must be {shape[0]}.''
               else ''Shape must be one of {shape}.''))))"
| "validate_real_value scalar name =
     and_then (cast_to_numpy scalar)
       (\<lambda>valid_scalar.
          and_then (check_shape (PArray valid_scalar) (PTuple []) name)
            (\<lambda>u. and_then (check_real (PArray valid_scalar) name)
               (\<lambda>u. Inr valid_scalar)))"
| "check_greater_than array value strict name =
     and_then (as_array array)
       (\<lambda>array.
          and_then (validate_real_value value ''Value'')
            (\<lambda>valid_value.
               if strict \<and> \<not> np_all Gt array valid_value
               then Inl (ValueError, name @ '' values must all be greater than {value}.'')
               else if \<not> np_all Ge array valid_value
               then Inl (ValueError, name @ '' values must all be greater than or equal to {value}.'')
               else ok))"
  by pat_completeness auto
termination
  by (relation "measure (\<lambda>c. case c of
          Inl (Inl s) \<Rightarrow> vsv_cost s
        | Inl (Inr (a, ss, e)) \<Rightarrow> loop_cost ss
        | Inr (Inl (a, s, n)) \<Rightarrow> Suc (loop_cost (if isinstance s T_list then list_items s else [s]))
        | Inr (Inr (Inl (v, n))) \<Rightarrow> 4
        | Inr (Inr (Inr (a, v, st, n))) \<Rightarrow> 5)")
    (simp_all add: vsv_cost_def loop_cost_def isinstance_def issubclass_def py_in_def
      common_shapes_def)

declare validate_shape_value.simps [simp del]
declare check_shape.simps [simp del]
declare validate_real_value.simps [simp del]
declare check_greater_than.simps [simp del]

definition check_less_than :: "pyval \<Rightarrow> pyval \<Rightarrow> bool \<Rightarrow> string \<Rightarrow> unit result" where
  "check_less_than array value strict name =
     and_then (as_array array)
       (\<lambda>array.
          and_then (validate_real_value value ''Value'')
            (\<lambda>valid_value.
               if strict \<and> \<not> np_all Lt array valid_value
               then Inl (ValueError, name @ '' values must all be less than {value}.'')
               else if \<not> np_all Le array valid_value
               then Inl (ValueError, name @ '' values must all be less than or equal to {value}.'')
               else ok))"

definition check_nonnegative :: "pyval \<Rightarrow> string \<Rightarrow> unit result" where
  "check_nonnegative array name = check_greater_than array (PInt 0) False name"

text \<open>
  The general path of the shape normalisation: \<open>_validate_shape_value\<close> without its
  early return for the common shapes.  The specification asks that the early return
  change nothing on a shape descriptor.
\<close>

definition validate_shape_value_general :: "pyval \<Rightarrow> pyval result" where
  "validate_shape_value_general shape =
     (if shape = PNone
      then Inl (TypeError, ''`None` is not a valid shape. Use `()` instead.'')
      else if is_valid_dim shape then Inr (PTuple [shape])
      else if isinstance shape T_tuple \<and> list_all is_valid_dim (tuple_items shape) then Inr shape
      else
        and_then (check_instance shape (ClsTuple [T_int, T_tuple]) True (PStr ''Shape''))
          (\<lambda>u. and_then
             (if isinstance shape T_int then Inr (PTuple [shape])
              else and_then (fst (check_iterable_items shape (Cls T_int) True (PStr ''Shape'')))
                     (\<lambda>u. Inr shape))
             (\<lambda>shape. and_then (check_greater_than shape (PInt (- 1)) False ''Shape'')
                (\<lambda>u. Inl (RuntimeError, ''This line should not be reachable.'')))))"

text \<open>
  The declared type of the argument of \<open>_validate_shape_value\<close>,
  \<open>_ShapeLike = Union[int, tuple[()], tuple[int, ...]]\<close>: an instance of \<open>int\<close>, or an
  instance of \<open>tuple\<close> whose items are instances of \<open>int\<close>.
\<close>

definition is_shape_like :: "pyval \<Rightarrow> bool" where
  "is_shape_like shape =
     (isinstance shape T_int
      \<or> isinstance shape T_tuple \<and> list_all (\<lambda>d. isinstance d T_int) (tuple_items shape))"

subsection \<open>check_sorted and check_range\<close>

text \<open>
  \<open>check_sorted\<close> validates an axis other than \<open>-1\<close> and \<open>None\<close> with \<open>check_range\<close>, and
  \<open>check_range\<close> validates its range with \<open>check_sorted\<close> on the default axis \<open>-1\<close>,
  where the recursion ends.
\<close>

function check_sorted :: "pyval \<Rightarrow> bool \<Rightarrow> bool \<Rightarrow> pyval \<Rightarrow> string \<Rightarrow> unit result"
  and check_range :: "pyval \<Rightarrow> pyval \<Rightarrow> bool \<Rightarrow> bool \<Rightarrow> string \<Rightarrow> unit result"
where
  "check_sorted array ascending strict axis name =
     and_then (as_array array)
       (\<lambda>array.
          let ndim = arr_ndim array in
          if ndim = 0 then ok
          else
            and_then
              (if \<not> py_in axis [PInt (- 1), PNone]
               then
                 and_then (check_number axis (PStr ''Axis''))
                   (\<lambda>u. and_then (check_integer axis False ''Axis'')
                      (\<lambda>u. and_then (py_int axis)
                         (\<lambda>axis.
                            case check_range (PInt axis)
                                   (PList [PInt (- int ndim), PInt (int ndim - 1)])
                                   False False ''Axis'' of
                              Inl (ValueError, m) \<Rightarrow>
                                Inl (ValueError, ''Axis {axis} is out of bounds for ndim {ndim}.'')
                            | Inl e \<Rightarrow> Inl e
                            | Inr u \<Rightarrow> Inr (PInt axis))))
               else Inr axis)
              (\<lambda>axis.
                 let flat = (axis = PNone \<and> 1 \<le> ndim);
                     array = (if flat then ravel array else array);
                     ndim = (if flat then 1 else ndim);
                     axis = (if flat then PInt 0 else axis)
                 in
                 and_then (list_index ndim axis)
                   (\<lambda>k.
                      let n = arr_shape array ! k;
                          first_item = axis_slice (arr_shape array) k 0 (n - 1) (arr_elems array);
                          second_item = axis_slice (arr_shape array) k 1 n (arr_elems array);
                          is_sorted =
                            (if ascending \<and> \<not> strict then all_cmp Le first_item second_item
                             else if ascending \<and> strict then all_cmp Lt first_item second_item
                             else if \<not> ascending \<and> \<not> strict then all_cmp Ge first_item second_item
                             else all_cmp Gt first_item second_item)
                      in
                      if \<not> is_sorted
                      then
                        Inl (ValueError,
                          name @ '' with {array.size} elements must be sorted in '' @
                          (if strict then ''strict '' else []) @
                          (if ascending then ''ascending'' else ''descending'') @
                          '' order. Got:\<newline>    {reprlib.repr(array)}'')
                      else ok)))"
| "check_range array rng strict_lower strict_upper name =
     and_then (as_array rng)
       (\<lambda>rng.
          and_then (check_shape (PArray rng) (PInt 2) ''Range'')
            (\<lambda>u. and_then (check_sorted (PArray rng) True False (PInt (- 1)) ''Range'')
               (\<lambda>u. and_then (as_array array)
                  (\<lambda>array.
                     and_then (and_then (item rng 0)
                                 (\<lambda>lo. check_greater_than (PArray array) lo strict_lower name))
                       (\<lambda>u. and_then (item rng 1)
                          (\<lambda>hi. check_less_than (PArray array) hi strict_upper name))))))"
  by pat_completeness auto
termination
  by (relation "measure (\<lambda>c. case c of
          Inl (a, asc, st, axis, n) \<Rightarrow> (if py_in axis [PInt (- 1), PNone] then 0 else 2)
        | Inr (a, r, sl, su, n) \<Rightarrow> 1)")
    (simp_all add: py_in_def py_eq_def)

declare check_sorted.simps [simp del]
declare check_range.simps [simp del]

subsection \<open>check_ndim\<close>

text \<open>
  \<open>check_ndim\<close> checks its own \<open>ndim\<close> argument with \<open>check_ndim(ndim, [0, 1])\<close>, on the
  path where the rank of the array is none of the entries of \<open>ndim\<close>.
\<close>

definition ndim_cost :: "pyval \<Rightarrow> pyval \<Rightarrow> nat" where
  "ndim_cost array ndim =
     (case np_atleast_1d ndim of
        Inl e \<Rightarrow> 0
      | Inr ndim_a \<Rightarrow>
          (case cast_to_numpy array of
             Inl e \<Rightarrow> 0
           | Inr a \<Rightarrow>
               if np_contains ndim_a (int (arr_ndim a)) then 0
               else if ndim = PList [PInt 0, PInt 1] then 1 else 2))"

function check_ndim :: "pyval \<Rightarrow> pyval \<Rightarrow> string \<Rightarrow> unit result" where
  "check_ndim array ndim name =
     and_then (np_atleast_1d ndim)
       (\<lambda>ndim_a.
          and_then (cast_to_numpy array)
            (\<lambda>a.
               let array_ndim = arr_ndim a in
               if \<not> np_contains ndim_a (int array_ndim)
               then
                 and_then (check_ndim ndim (PList [PInt 0, PInt 1]) ''ndim'')
                   (\<lambda>u. and_then
                      (if np_len ndim_a = 1
                       then and_then (item ndim_a 0) (\<lambda>x. check_integer x True ''ndim'')
                       else check_integer ndim True ''ndim'')
                      (\<lambda>u.
                         Inl (ValueError,
                           name @ '' has the incorrect number of dimensions. '' @
                           ''Got {array_ndim}, expected '' @
                           (if np_len ndim_a = 1 then ''{ndim}.'' else ''one of {ndim}.''))))
               else ok))"
  by pat_completeness auto
termination
  apply (relation "measure (\<lambda>(array, ndim, name). ndim_cost array ndim)")
   apply simp
  apply (auto simp add: ndim_cost_def np_atleast_1d_def atleast_def and_then_def np_stack_def np_contains_def
      scalar_cmp_def arr_elems_def arr_ndim_def arr_dtype_def array0_def promote_def
      split: sum.splits if_splits)
  done

declare check_ndim.simps [simp del]

subsection \<open>Shape descriptors of the specification\<close>

text \<open>
  A shape descriptor, in the words of the specification: "a single non-negative
  integer or sentinel -1, a tuple of such integers"; "every dimension value is an
  integer >= -1".  A bare integer stands for the tuple of that one dimension.  A
  candidate matches an actual shape "iff they have equal rank and, position-wise,
  either the dimensions are equal or the candidate dimension is the wildcard -1".
\<close>

datatype shape_desc = Dim int | Dims "int list"

definition desc_value :: "shape_desc \<Rightarrow> pyval" where
  "desc_value c = (case c of Dim i \<Rightarrow> PInt i | Dims ds \<Rightarrow> PTuple (map PInt ds))"

definition desc_dims :: "shape_desc \<Rightarrow> int list" where
  "desc_dims c = (case c of Dim i \<Rightarrow> [i] | Dims ds \<Rightarrow> ds)"

definition desc_valid :: "shape_desc \<Rightarrow> bool" where
  "desc_valid c = list_all (\<lambda>i. - 1 \<le> i) (desc_dims c)"

definition shape_matches :: "nat list \<Rightarrow> int list \<Rightarrow> bool" where
  "shape_matches a b = (length a = length b \<and> list_all2 (\<lambda>x y. int x = y \<or> y = - 1) a b)"

subsection \<open>Sortedness along an axis, in the words of the specification\<close>

text \<open>
  "Compares each adjacent pair of elements along the chosen axis using
  \<open><=\<close>/\<open><\<close>/\<open>>=\<close>/\<open>>\<close> depending on ascending x strict."  In an array of shape \<open>sh\<close>
  whose elements are listed in row-major order, the element at position \<open>c\<close> along
  axis \<open>k\<close>, in the \<open>b\<close>-th block of the axes before \<open>k\<close> and at offset \<open>r\<close> in the
  axes after it, lies at \<open>b * n * inner + c * inner + r\<close>; its neighbour along the axis
  is the element at position \<open>c + 1\<close>.  \<open>axis_index\<close> is the axis a Python index denotes, a negative one
  counting from the last axis.
\<close>

definition sort_op :: "bool \<Rightarrow> bool \<Rightarrow> cmpop" where
  "sort_op ascending strict =
     (if ascending \<and> \<not> strict then Le else if ascending \<and> strict then Lt
      else if \<not> ascending \<and> \<not> strict then Ge else Gt)"


definition axis_index :: "nat \<Rightarrow> int \<Rightarrow> nat" where
  "axis_index ndim k = nat (if k < 0 then k + int ndim else k)"

text \<open>The error of \<open>check_sorted\<close> on an array that is not sorted.\<close>

definition sorted_error :: "string \<Rightarrow> bool \<Rightarrow> bool \<Rightarrow> exc" where
  "sorted_error name ascending strict =
     (ValueError,
      name @ '' with {array.size} elements must be sorted in '' @
      (if strict then ''strict '' else []) @
      (if ascending then ''ascending'' else ''descending'') @
      '' order. Got:\<newline>    {reprlib.repr(array)}'')"

text \<open>The errors \<open>check_ndim\<close> raises about its own \<open>ndim\<close> argument.\<close>

definition ndim_rank_error :: exc where
  "ndim_rank_error =
     (ValueError,
      ''ndim has the incorrect number of dimensions. Got {array_ndim}, expected one of {ndim}.'')"

definition ndim_dtype_error :: exc where
  "ndim_dtype_error =
     (TypeError,
      ''Input has incorrect dtype of '{input_dtype.name}'. The dtype must be a subtype of {base_dtype[0]}.'')"


text \<open>
  The candidate types of a \<open>classinfo\<close>, in the words of the specification: "a type or
  set of types; generic alias/union type hints are unwrapped to their constituent
  concrete types first".
\<close>

definition candidate_types :: "classinfo \<Rightarrow> pytype list" where
  "candidate_types c = (case c of Cls t \<Rightarrow> [t] | ClsTuple ts \<Rightarrow> ts | ClsUnion ts \<Rightarrow> ts)"


section \<open>Properties\<close>

subsection \<open>Unfolding the checks\<close>

lemmas result_defs = ok_def raises_def and_then_def

lemmas array_defs = as_array_def arr_elems_def arr_dtype_def arr_ndim_def array0_def

lemmas cmp_defs = np_array_equal_def all_cmp_def scalar_cmp_def float_le_def

lemma np_floor_facts [simp]:
  "arr_shape (np_floor a) = arr_shape a" "arr_data (np_floor a) = data_floor (arr_data a)"
  by (cases a; simp)+

lemma float_eq_floor_NaN: "\<not> float_eq NaN (float_floor NaN)"
  by simp

lemma float_eq_floor_iff:
  "float_eq f (float_floor f) = (f = PInf \<or> f = NInf \<or> (\<exists>i. f = Fin (of_int i)))"
proof (cases f)
  case (Fin r)
  have "(r = of_int \<lfloor>r\<rfloor>) = (\<exists>i. r = of_int i)"
    by (metis of_int_floor_cancel Ints_of_int Ints_cases)
  with Fin show ?thesis by auto
qed simp_all

lemma check_integer_floats:
  "arr_data a = Floats fs \<Longrightarrow>
   check_integer (PArray a) False name =
     (if list_all (\<lambda>f. float_eq f (float_floor f)) fs then ok
      else Inl (ValueError, name @ '' must have integer-like values.''))"
  by (simp add: check_integer_def result_defs array_defs cmp_defs list_all2_map1 list_all2_map2
      list_all2_same list_all_iff)

subsection \<open>check_integer\<close>

text \<open>
  C4, as the code has it.  \<open>check_integer(2.0)\<close> returns and \<open>check_integer(2.5)\<close>
  raises \<open>ValueError\<close>.  With \<open>strict=True\<close> the check looks at the dtype alone: a
  double raises whatever its value (2.5 and 2.0 alike), an array passes exactly when
  its dtype is integral; and the error of the strict check is a \<open>TypeError\<close> (the one of
  \<open>check_subdtype\<close>), not a \<open>ValueError\<close>.
\<close>

theorem check_integer_strict_raises_type_error:
  "check_integer (PFloat (Fin 2)) False name = ok
   \<and> raises ValueError (check_integer (PFloat (Fin (5 / 2))) False name)
   \<and> raises TypeError (check_integer (PFloat (Fin (5 / 2))) True name)
   \<and> raises TypeError (check_integer (PFloat f) True name)
   \<and> (check_integer (PArray a) True name = ok) = (arr_dtype a = dt_int64)
   \<and> (arr_dtype a \<noteq> dt_int64) = raises TypeError (check_integer (PArray a) True name)"
proof -
  have whole: "check_integer (PFloat (Fin 2)) False name = ok"
    by (simp add: check_integer_def result_defs array_defs cmp_defs)
  have "rat_of_int \<lfloor>5 / 2 :: rat\<rfloor> \<noteq> 5 / 2"
    by code_simp
  then have half: "raises ValueError (check_integer (PFloat (Fin (5 / 2))) False name)"
    by (simp add: check_integer_def result_defs array_defs cmp_defs)
  have strict: "raises TypeError (check_integer (PFloat g) True name)" for g
    by (simp add: check_integer_def check_subdtype_def result_defs array_defs np_issubdtype_def)
  have dtype: "(check_integer (PArray a) True name = ok) = (arr_dtype a = dt_int64)"
    by (cases a; cases "arr_data a")
      (simp_all add: check_integer_def check_subdtype_def result_defs array_defs np_issubdtype_def)
  have kind: "(arr_dtype a \<noteq> dt_int64) = raises TypeError (check_integer (PArray a) True name)"
    by (cases a; cases "arr_data a")
      (simp_all add: check_integer_def check_subdtype_def result_defs array_defs np_issubdtype_def)
  from whole half strict dtype kind show ?thesis by blast
qed

text \<open>
  The claim of C4 that \<open>check_integer(2.5, strict=True)\<close> raises a value error fails:
  the exception is not a \<open>ValueError\<close>.
\<close>

theorem check_integer_strict_not_value_error:
  "\<not> raises ValueError (check_integer (PFloat (Fin (5 / 2))) True ''Array'')"
  by (simp add: check_integer_def check_subdtype_def result_defs array_defs np_issubdtype_def)

text \<open>
  C10.  Without \<open>strict\<close>, \<open>check_integer\<close> accepts an infinite double, in a list or
  alone, since an infinity equals its own floor, and an array of doubles with a NaN
  anywhere raises \<open>ValueError\<close>, whatever its shape and layout.  So passing the check does not make the values
  finite: \<open>check_finite\<close> raises on the list \<open>[inf]\<close> that \<open>check_integer\<close> accepts.
\<close>

theorem check_integer_accepts_inf_rejects_nan:
  "check_integer (PList [PFloat PInf]) False name = ok
   \<and> check_integer (PFloat PInf) False name = ok
   \<and> check_integer (PFloat NInf) False name = ok
   \<and> (arr_data a = Floats fs \<and> NaN \<in> set fs \<longrightarrow>
        raises ValueError (check_integer (PArray a) False name))
   \<and> raises ValueError (check_integer (PFloat NaN) False name)
   \<and> raises ValueError (check_finite (PList [PFloat PInf]) name)"
proof -
  have inf_list: "check_integer (PList [PFloat PInf]) False name = ok"
    by (simp add: check_integer_def result_defs array_defs cmp_defs np_stack_def)
  have inf: "check_integer (PFloat PInf) False name = ok"
    by (simp add: check_integer_def result_defs array_defs cmp_defs)
  have ninf: "check_integer (PFloat NInf) False name = ok"
    by (simp add: check_integer_def result_defs array_defs cmp_defs)
  have nan: "raises ValueError (check_integer (PArray a) False name)"
    if "arr_data a = Floats fs \<and> NaN \<in> set fs"
  proof -
    from that float_eq_floor_NaN have "\<not> list_all (\<lambda>f. float_eq f (float_floor f)) fs"
      unfolding list_all_iff by blast
    with that show ?thesis
      by (simp add: check_integer_floats raises_def)
  qed
  have nan0: "raises ValueError (check_integer (PFloat NaN) False name)"
    by (simp add: check_integer_def result_defs array_defs cmp_defs)
  have fin: "raises ValueError (check_finite (PList [PFloat PInf]) name)"
    by (simp add: check_finite_def result_defs array_defs np_stack_def)
  from inf_list inf ninf nan nan0 fin show ?thesis by blast
qed

theorem check_integer_accepts_inf_rejects_nan_witness:
  "arr_data (NDArray [2] (Floats [Fin 1, NaN])) = Floats [Fin 1, NaN]
   \<and> NaN \<in> set [Fin 1, NaN]
   \<and> raises ValueError
        (check_integer (PArray (NDArray [2] (Floats [Fin 1, NaN]))) False ''Array'')
   \<and> check_integer (PList [PFloat PInf]) False ''Array'' = ok"
  using check_integer_accepts_inf_rejects_nan
    [of "''Array''" "NDArray [2] (Floats [Fin 1, NaN])" "[Fin 1, NaN]"]
  by simp


subsection \<open>check_instance\<close>

lemma isinstance_PStr: "isinstance (PStr nm) T_str"
  by (simp add: isinstance_def issubclass_def)

lemma check_instance_subclass_iff:
  "(check_instance obj ci True (PStr nm) = ok) = (\<exists>c\<in>set (candidate_types ci). isinstance obj c)"
  by (cases ci)
    (simp_all add: check_instance_def candidate_types_def ok_def list_ex_iff Let_def isinstance_PStr)

lemma check_instance_exact_iff:
  "(check_instance obj ci False (PStr nm) = ok) = (type_of obj \<in> set (candidate_types ci))"
  by (cases ci)
    (simp_all add: check_instance_def candidate_types_def ok_def Let_def isinstance_PStr)

lemma check_instance_TypeError:
  "(check_instance obj ci allow nm \<noteq> ok) = raises TypeError (check_instance obj ci allow nm)"
  by (cases ci) (simp_all add: check_instance_def ok_def raises_def Let_def split: option.splits)

text \<open>
  C8.  With a string for \<open>name\<close>: if subclasses are allowed, \<open>check_instance\<close> returns
  exactly when the object is an instance of some candidate type, subclasses included;
  if not, exactly when the object's own type is one of the candidates; and when it
  does not return it raises \<open>TypeError\<close>.  \<open>check_instance(5, (int, str))\<close> returns with
  either setting, since \<open>type(5)\<close> is \<open>int\<close>; \<open>True\<close>, of the proper subclass \<open>bool\<close>, and
  an instance of a user subclass of \<open>int\<close> are accepted with subclasses allowed and
  rejected without.
\<close>

theorem check_instance_subclass_or_exact_type:
  "(check_instance obj classinfo True (PStr name) = ok)
     = (\<exists>c\<in>set (candidate_types classinfo). isinstance obj c)
   \<and> (check_instance obj classinfo False (PStr name) = ok)
     = (type_of obj \<in> set (candidate_types classinfo))
   \<and> (check_instance obj classinfo allow (PStr name) \<noteq> ok)
     = raises TypeError (check_instance obj classinfo allow (PStr name))
   \<and> check_instance (PInt 5) (ClsTuple [T_int, T_str]) True (PStr name) = ok
   \<and> check_instance (PInt 5) (ClsTuple [T_int, T_str]) False (PStr name) = ok
   \<and> check_instance (PBool True) (ClsTuple [T_int, T_str]) True (PStr name) = ok
   \<and> raises TypeError (check_instance (PBool True) (ClsTuple [T_int, T_str]) False (PStr name))
   \<and> check_instance (PSub ''MyInt'' (PInt 5)) (Cls T_int) True (PStr name) = ok
   \<and> raises TypeError (check_instance (PSub ''MyInt'' (PInt 5)) (Cls T_int) False (PStr name))"
proof -
  have five: "check_instance (PInt 5) (ClsTuple [T_int, T_str]) True (PStr name) = ok"
    by (simp add: check_instance_subclass_iff candidate_types_def isinstance_def issubclass_def)
  have five_exact: "check_instance (PInt 5) (ClsTuple [T_int, T_str]) False (PStr name) = ok"
    by (simp add: check_instance_exact_iff candidate_types_def)
  have true: "check_instance (PBool True) (ClsTuple [T_int, T_str]) True (PStr name) = ok"
    by (simp add: check_instance_subclass_iff candidate_types_def isinstance_def issubclass_def)
  have "check_instance (PBool True) (ClsTuple [T_int, T_str]) False (PStr name) \<noteq> ok"
    by (simp add: check_instance_exact_iff candidate_types_def)
  then have true_exact:
    "raises TypeError (check_instance (PBool True) (ClsTuple [T_int, T_str]) False (PStr name))"
    by (simp only: check_instance_TypeError)
  have user: "check_instance (PSub ''MyInt'' (PInt 5)) (Cls T_int) True (PStr name) = ok"
    by (simp add: check_instance_subclass_iff candidate_types_def isinstance_def issubclass_def)
  have "check_instance (PSub ''MyInt'' (PInt 5)) (Cls T_int) False (PStr name) \<noteq> ok"
    by (simp add: check_instance_exact_iff candidate_types_def)
  then have user_exact:
    "raises TypeError (check_instance (PSub ''MyInt'' (PInt 5)) (Cls T_int) False (PStr name))"
    by (simp only: check_instance_TypeError)
  from five five_exact true true_exact user user_exact show ?thesis
    by (simp only: check_instance_subclass_iff check_instance_exact_iff
        check_instance_TypeError simp_thms)
qed

subsection \<open>Repeating a check\<close>



subsection \<open>check_shape and the shape normalisation\<close>

lemma py_eq_PInt [simp]: "py_eq (PInt i) (PInt j) = (i = j)"
  by (simp add: py_eq_def)

lemma is_valid_dim_PInt [simp]: "is_valid_dim (PInt i) = (- 1 \<le> i)"
  by (simp add: is_valid_dim_def isinstance_def issubclass_def)

lemma py_in_PInt_common [simp]: "\<not> py_in (PInt i) common_shapes"
  by (simp add: py_in_def common_shapes_def py_eq_def)

lemma validate_shape_value_desc:
  "desc_valid c \<Longrightarrow> validate_shape_value (desc_value c) = Inr (PTuple (map PInt (desc_dims c)))"
  by (cases c)
    (simp_all add: validate_shape_value.simps desc_value_def desc_dims_def desc_valid_def
      is_valid_dim_def isinstance_def issubclass_def list_all_iff)

lemma shape_is_allowed_ints:
  "shape_is_allowed a (PTuple (map PInt ds)) = shape_matches a ds"
  by (auto simp add: shape_is_allowed_def shape_matches_def list_all2_iff list_all_iff zip_map2)

lemma check_shape_loop_descs:
  "list_all desc_valid cs \<Longrightarrow>
   check_shape_loop a (map desc_value cs) err =
     (if list_ex (\<lambda>c. shape_matches a (desc_dims c)) cs then ok else Inl err)"
  by (induction cs)
    (simp_all add: validate_shape_value_desc and_then_def shape_is_allowed_ints)


lemma np_shape_PList_descs: "isinstance (PList xs) T_list" "list_items (PList xs) = xs"
  by (simp_all add: isinstance_def issubclass_def)

lemma desc_value_not_list: "\<not> isinstance (desc_value c) T_list"
  by (cases c) (simp_all add: desc_value_def isinstance_def issubclass_def)

lemma check_shape_descs:
  assumes "np_shape array = Inr sh" and "list_all desc_valid cs"
  shows "check_shape array (PList (map desc_value cs)) name =
     (if list_ex (\<lambda>c. shape_matches sh (desc_dims c)) cs then ok
      else Inl (ValueError,
              name @ '' has shape {array_shape} which is not allowed. '' @
              (if length cs = 1 then ''Shape must be {shape[0]}.''
               else ''Shape must be one of {shape}.'')))"
  using assms
  by (simp add: check_shape.simps np_shape_PList_descs and_then_def check_shape_loop_descs)

lemma check_shape_desc:
  assumes "np_shape array = Inr sh" and "desc_valid c"
  shows "check_shape array (desc_value c) name =
     (if shape_matches sh (desc_dims c) then ok
      else Inl (ValueError,
              name @ '' has shape {array_shape} which is not allowed. Shape must be {shape[0]}.''))"
  using assms check_shape_loop_descs [of "[c]" sh]
  by (simp add: check_shape.simps desc_value_not_list and_then_def)

lemma shape_matches_any_3: "shape_matches sh [- 1, 3] = (\<exists>n. sh = [n, 3])"
  by (cases sh; cases "tl sh"; cases "tl (tl sh)") (auto simp add: shape_matches_def)

text \<open>
  C1.  On an array of shape \<open>sh\<close> and candidates that are shape descriptors,
  \<open>check_shape\<close> returns exactly when some candidate matches \<open>sh\<close>: equal rank and,
  position by position, the same dimension or the wildcard -1; this for a list of
  candidates and for a single one, a bare integer \<open>i\<close> standing for \<open>(i,)\<close>.  With
  \<open>shape=(-1, 3)\<close> it returns exactly on the shapes \<open>(n, 3)\<close>.  Whenever it does not
  return it raises \<open>ValueError\<close>.
\<close>

theorem check_shape_matches_some_candidate:
  "np_shape array = Inr sh \<Longrightarrow> list_all desc_valid cands \<Longrightarrow> desc_valid c \<Longrightarrow>
     (check_shape array (PList (map desc_value cands)) name = ok)
       = (\<exists>c\<in>set cands. shape_matches sh (desc_dims c))
   \<and> (check_shape array (PList (map desc_value cands)) name \<noteq> ok)
       = raises ValueError (check_shape array (PList (map desc_value cands)) name)
   \<and> (check_shape array (desc_value c) name = ok) = shape_matches sh (desc_dims c)
   \<and> (check_shape array (desc_value c) name \<noteq> ok)
       = raises ValueError (check_shape array (desc_value c) name)
   \<and> (check_shape array (PTuple [PInt (- 1), PInt 3]) name = ok) = (\<exists>n. sh = [n, 3])
   \<and> (check_shape array (PTuple [PInt (- 1), PInt 3]) name \<noteq> ok)
       = raises ValueError (check_shape array (PTuple [PInt (- 1), PInt 3]) name)"
proof -
  assume sh: "np_shape array = Inr sh" and cands: "list_all desc_valid cands" and c: "desc_valid c"
  have any3: "desc_valid (Dims [- 1, 3])" "desc_value (Dims [- 1, 3]) = PTuple [PInt (- 1), PInt 3]"
    "desc_dims (Dims [- 1, 3]) = [- 1, 3]"
    by (simp_all add: desc_valid_def desc_value_def desc_dims_def)
  show ?thesis
    using check_shape_descs [OF sh cands, of name] check_shape_desc [OF sh c, of name]
      check_shape_desc [OF sh any3(1), of name]
    by (simp add: any3 shape_matches_any_3 ok_def raises_def list_ex_iff)
qed

theorem check_shape_matches_some_candidate_witness:
  "np_shape (PList [PList [PInt 1, PInt 2, PInt 3], PList [PInt 4, PInt 5, PInt 6]]) = Inr [2, 3]
   \<and> list_all desc_valid [Dims [], Dims [- 1, 3]] \<and> desc_valid (Dim 2)
   \<and> check_shape (PList [PList [PInt 1, PInt 2, PInt 3], PList [PInt 4, PInt 5, PInt 6]])
        (PList (map desc_value [Dims [], Dims [- 1, 3]])) ''Array'' = ok
   \<and> raises ValueError
        (check_shape (PList [PList [PInt 1, PInt 2, PInt 3], PList [PInt 4, PInt 5, PInt 6]])
           (desc_value (Dim 2)) ''Array'')
   \<and> check_shape (PList [PList [PInt 1, PInt 2, PInt 3], PList [PInt 4, PInt 5, PInt 6]])
        (PTuple [PInt (- 1), PInt 3]) ''Array'' = ok"
proof -
  have sh: "np_shape (PList [PList [PInt 1, PInt 2, PInt 3], PList [PInt 4, PInt 5, PInt 6]])
      = Inr [2, 3]"
    by (simp add: and_then_def stack_shape_def)
  have v: "list_all desc_valid [Dims [], Dims [- 1, 3]]" "desc_valid (Dim 2)"
    by (simp_all add: desc_valid_def desc_dims_def)
  have m: "\<exists>c\<in>set [Dims [], Dims [- 1, 3]]. shape_matches [2, 3] (desc_dims c)"
    "\<not> shape_matches [2, 3] (desc_dims (Dim 2))" "\<exists>n. [2, 3] = [n, 3::nat]"
    by (simp_all add: shape_matches_def desc_dims_def)
  from check_shape_matches_some_candidate [OF sh v, of "''Array''"] m
  have "check_shape (PList [PList [PInt 1, PInt 2, PInt 3], PList [PInt 4, PInt 5, PInt 6]])
        (PList (map desc_value [Dims [], Dims [- 1, 3]])) ''Array'' = ok"
    and "raises ValueError
        (check_shape (PList [PList [PInt 1, PInt 2, PInt 3], PList [PInt 4, PInt 5, PInt 6]])
           (desc_value (Dim 2)) ''Array'')"
    and "check_shape (PList [PList [PInt 1, PInt 2, PInt 3], PList [PInt 4, PInt 5, PInt 6]])
        (PTuple [PInt (- 1), PInt 3]) ''Array'' = ok"
    by blast+
  with sh v show ?thesis
    by (intro conjI)
qed

lemma isinstance_PSub: "isinstance (PSub n v) c = (c = T_class n (type_of v) \<or> isinstance v c)"
  by (auto simp add: isinstance_def issubclass_def)

lemma int_no_array: "isinstance d T_int \<Longrightarrow> \<not> has_array d"
  by (induction d) (auto simp add: isinstance_def issubclass_def)

lemma eq_values_int: "isinstance d T_int \<Longrightarrow> eq_values d (PInt c) = (int_value d = c)"
  by (induction d) (auto simp add: isinstance_def issubclass_def)

lemma eq_values_int_tuple: "isinstance d T_int \<Longrightarrow> \<not> eq_values d (PTuple ys)"
  by (induction d) (auto simp add: isinstance_def issubclass_def)

lemma tuple_not_int: "isinstance s T_tuple \<Longrightarrow> \<not> isinstance s T_int \<and> s \<noteq> PNone"
  by (induction s) (auto simp add: isinstance_def issubclass_def)

lemma tuple_no_array:
  "isinstance s T_tuple \<Longrightarrow> list_all (\<lambda>d. isinstance d T_int) (tuple_items s) \<Longrightarrow>
   \<not> has_array s"
  by (induction s) (auto simp add: isinstance_def issubclass_def list_all_iff list_ex_iff int_no_array)

lemma eq_values_tuple_items:
  "isinstance s T_tuple \<Longrightarrow> eq_values s (PTuple ys) \<Longrightarrow>
   list_all2 eq_values (tuple_items s) ys"
  by (induction s) (auto simp add: isinstance_def issubclass_def)

lemma shape_like_no_array: "is_shape_like shape \<Longrightarrow> \<not> has_array shape"
  using int_no_array tuple_no_array by (auto simp add: is_shape_like_def)

lemma common_shapes_ints:
  "y \<in> set common_shapes \<Longrightarrow>
     y = PTuple (map PInt (map int_value (tuple_items y)))
     \<and> list_all (\<lambda>c. - 1 \<le> c) (map int_value (tuple_items y))
     \<and> \<not> has_array y"
  by (auto simp add: common_shapes_def)

lemma items_valid_of_eq_values:
  "list_all2 eq_values xs (map PInt cs) \<Longrightarrow> list_all (\<lambda>d. isinstance d T_int) xs \<Longrightarrow>
   list_all (\<lambda>c. - 1 \<le> c) cs \<Longrightarrow> list_all is_valid_dim xs"
proof (induction xs arbitrary: cs)
  case Nil
  then show ?case by simp
next
  case (Cons x xs)
  then obtain c cs' where cs: "cs = c # cs'"
    by (cases cs) auto
  with Cons.prems have "eq_values x (PInt c)" "isinstance x T_int" "- 1 \<le> c"
    by simp_all
  then have "is_valid_dim x"
    by (simp add: is_valid_dim_def eq_values_int)
  with Cons.IH [of cs'] Cons.prems cs show ?case
    by simp
qed

lemma common_shape_valid:
  assumes "py_in shape common_shapes" and "is_shape_like shape"
  shows "shape \<noteq> PNone \<and> \<not> is_valid_dim shape \<and> isinstance shape T_tuple
         \<and> list_all is_valid_dim (tuple_items shape)"
proof -
  from assms(1) obtain y where y: "y \<in> set common_shapes" "py_eq shape y"
    by (auto simp add: py_in_def list_ex_iff)
  define cs where "cs = map int_value (tuple_items y)"
  from common_shapes_ints [OF y(1)]
  have ycs: "y = PTuple (map PInt cs)" "list_all (\<lambda>c. - 1 \<le> c) cs" "\<not> has_array y"
    by (simp_all add: cs_def)
  from y(2) ycs(3) shape_like_no_array [OF assms(2)] have eq: "eq_values shape y"
    by (simp add: py_eq_def)
  with ycs(1) eq_values_int_tuple [of shape "map PInt cs"] have "\<not> isinstance shape T_int"
    by auto
  with assms(2) have t: "isinstance shape T_tuple"
    and items: "list_all (\<lambda>d. isinstance d T_int) (tuple_items shape)"
    by (simp_all add: is_shape_like_def)
  from eq ycs(1) eq_values_tuple_items [OF t, of "map PInt cs"]
  have "list_all2 eq_values (tuple_items shape) (map PInt cs)"
    by simp
  from items_valid_of_eq_values [OF this items ycs(2)] t tuple_not_int [OF t] show ?thesis
    by (simp add: is_valid_dim_def)
qed

text \<open>
  C2.  On every shape of the declared type \<open>_ShapeLike\<close>, an instance of \<open>int\<close> or a
  tuple of instances of \<open>int\<close>, valid or not, the early return for the common shapes
  changes nothing: \<open>_validate_shape_value\<close> returns the tuple, or raises the error, of
  the general path, which checks that each dimension is an integer not below -1.
\<close>

theorem validate_shape_value_early_return_agrees:
  "is_shape_like shape \<Longrightarrow>
   validate_shape_value shape = validate_shape_value_general shape"
proof (cases "py_in shape common_shapes")
  case True
  assume "is_shape_like shape"
  from common_shape_valid [OF True this] True show ?thesis
    by (simp add: validate_shape_value.simps validate_shape_value_general_def)
next
  case False
  then show ?thesis
    by (simp add: validate_shape_value.simps validate_shape_value_general_def)
qed

theorem validate_shape_value_early_return_agrees_witness:
  "is_shape_like (PTuple [PInt (- 1), PInt 3])
   \<and> py_in (PTuple [PInt (- 1), PInt 3]) common_shapes
   \<and> validate_shape_value_general (PTuple [PInt (- 1), PInt 3]) = Inr (PTuple [PInt (- 1), PInt 3])
   \<and> validate_shape_value (PTuple [PInt (- 1), PInt 3]) = Inr (PTuple [PInt (- 1), PInt 3])"
proof -
  have "validate_shape_value_general (PTuple [PInt (- 1), PInt 3]) = Inr (PTuple [PInt (- 1), PInt 3])"
    by (simp add: validate_shape_value_general_def is_valid_dim_def isinstance_def issubclass_def)
  then show ?thesis
    using validate_shape_value_early_return_agrees [of "PTuple [PInt (- 1), PInt 3]"]
    by (simp add: is_shape_like_def isinstance_def issubclass_def py_in_def py_eq_def
        common_shapes_def)
qed

text \<open>
  The declared type matters: a tuple that holds a float equal to a common dimension is
  no \<open>_ShapeLike\<close>, and on it the two paths part.  \<open>(3.0,) in [(), (-1,), (1,), (3,), ...]\<close>
  is true, so the early return hands \<open>(3.0,)\<close> back, while the general path rejects it
  with \<open>TypeError\<close>.
\<close>

lemma validate_shape_value_float_dimension:
  "\<not> is_shape_like (PTuple [PFloat (Fin 3)])
   \<and> py_in (PTuple [PFloat (Fin 3)]) common_shapes
   \<and> validate_shape_value (PTuple [PFloat (Fin 3)]) = Inr (PTuple [PFloat (Fin 3)])
   \<and> raises TypeError (validate_shape_value_general (PTuple [PFloat (Fin 3)]))"
  by (simp add: validate_shape_value.simps validate_shape_value_general_def py_in_def py_eq_def
      common_shapes_def is_valid_dim_def is_shape_like_def isinstance_def issubclass_def
      check_instance_def check_iterable_items_def check_iterable_def Let_def result_defs)


subsection \<open>check_range\<close>

lemma desc_unit: "desc_valid (Dims [])" "desc_value (Dims []) = PTuple []" "desc_dims (Dims []) = []"
  by (simp_all add: desc_valid_def desc_value_def desc_dims_def)

lemma desc_dim: "desc_valid (Dim i) = (- 1 \<le> i)" "desc_value (Dim i) = PInt i" "desc_dims (Dim i) = [i]"
  by (simp_all add: desc_valid_def desc_value_def desc_dims_def)

lemma check_shape_unit:
  "check_shape (PArray a) (PTuple []) name =
     (if arr_shape a = [] then ok
      else Inl (ValueError,
              name @ '' has shape {array_shape} which is not allowed. Shape must be {shape[0]}.''))"
  using check_shape_desc [of "PArray a" "arr_shape a" "Dims []" name]
  by (simp add: desc_unit shape_matches_def)

lemma check_shape_dim:
  "- 1 \<le> i \<Longrightarrow> check_shape (PArray a) (PInt i) name =
     (if shape_matches (arr_shape a) [i] then ok
      else Inl (ValueError,
              name @ '' has shape {array_shape} which is not allowed. Shape must be {shape[0]}.''))"
  using check_shape_desc [of "PArray a" "arr_shape a" "Dim i" name]
  by (simp add: desc_dim)

lemma shape_matches_2: "shape_matches sh [2] = (sh = [2])"
  by (cases sh; cases "tl sh") (auto simp add: shape_matches_def)

lemma check_real_not_bool:
  "arr_dtype v \<noteq> dt_bool \<Longrightarrow> check_real (PArray v) name = ok"
  by (cases "arr_dtype v") (simp_all add: check_real_def as_array_def and_then_def)

lemma validate_real_value_0d:
  "arr_shape v = [] \<Longrightarrow> arr_dtype v \<noteq> dt_bool \<Longrightarrow> validate_real_value (PArray v) name = Inr v"
  by (simp add: validate_real_value.simps check_shape_unit check_real_not_bool result_defs)

lemma validate_real_value_PInt: "validate_real_value (PInt i) name = Inr (array0 (SInt i))"
  by (simp add: validate_real_value.simps check_shape_unit check_real_def result_defs array_defs)

lemma check_greater_than_0d:
  "arr_shape v = [] \<Longrightarrow> arr_dtype v \<noteq> dt_bool \<Longrightarrow>
   check_greater_than (PArray a) (PArray v) strict name =
     (if strict \<and> \<not> np_all Gt a v
      then Inl (ValueError, name @ '' values must all be greater than {value}.'')
      else if \<not> np_all Ge a v
      then Inl (ValueError, name @ '' values must all be greater than or equal to {value}.'')
      else ok)"
  by (simp add: check_greater_than.simps validate_real_value_0d and_then_def as_array_def)

lemma check_less_than_0d:
  "arr_shape v = [] \<Longrightarrow> arr_dtype v \<noteq> dt_bool \<Longrightarrow>
   check_less_than (PArray a) (PArray v) strict name =
     (if strict \<and> \<not> np_all Lt a v
      then Inl (ValueError, name @ '' values must all be less than {value}.'')
      else if \<not> np_all Le a v
      then Inl (ValueError, name @ '' values must all be less than or equal to {value}.'')
      else ok)"
  by (simp add: check_less_than_def validate_real_value_0d and_then_def as_array_def)

lemma list_index_last: "0 < n \<Longrightarrow> list_index n (PInt (- 1)) = Inr (n - 1)"
  by (auto simp add: list_index_def isinstance_def issubclass_def Let_def)

lemma axis_slice_1d:
  "axis_slice [n] 0 lo hi d = take (hi - lo) (drop lo d)"
  by (simp add: axis_slice_def)

lemma check_sorted_default_axis:
  "arr_shape a \<noteq> [] \<Longrightarrow>
   check_sorted (PArray a) ascending strict (PInt (- 1)) name =
     (let k = arr_ndim a - 1; n = arr_shape a ! k in
      if all_cmp (sort_op ascending strict)
           (axis_slice (arr_shape a) k 0 (n - 1) (arr_elems a))
           (axis_slice (arr_shape a) k 1 n (arr_elems a))
      then ok
      else Inl (ValueError,
             name @ '' with {array.size} elements must be sorted in '' @
             (if strict then ''strict '' else []) @
             (if ascending then ''ascending'' else ''descending'') @
             '' order. Got:\<newline>    {reprlib.repr(array)}''))"
  by (simp add: check_sorted.simps as_array_def and_then_def arr_ndim_def py_in_def
      py_eq_def list_index_last Let_def sort_op_def)


lemma check_range_as_array:
  "as_array rng = Inr r \<Longrightarrow> as_array x = Inr a \<Longrightarrow>
   check_range x rng sl su name = check_range (PArray a) (PArray r) sl su name"
  by (simp add: check_range.simps and_then_def as_array_def)

lemma check_range_rng_as_array:
  "as_array rng = Inr r \<Longrightarrow>
   check_range x rng sl su name = check_range x (PArray r) sl su name"
  by (simp add: check_range.simps and_then_def as_array_def)

lemma check_range_bad_shape:
  "arr_shape r \<noteq> [2] \<Longrightarrow>
   check_range x (PArray r) sl su name =
     Inl (ValueError, ''Range has shape {array_shape} which is not allowed. Shape must be {shape[0]}.'')"
  by (simp add: check_range.simps and_then_def as_array_def check_shape_dim shape_matches_2)

lemma check_sorted_pair:
  "arr_shape r = [2] \<Longrightarrow> arr_elems r = [lo, hi] \<Longrightarrow>
   check_sorted (PArray r) ascending strict (PInt (- 1)) name =
     (if scalar_cmp (sort_op ascending strict) lo hi then ok
      else Inl (ValueError,
             name @ '' with {array.size} elements must be sorted in '' @
             (if strict then ''strict '' else []) @
             (if ascending then ''ascending'' else ''descending'') @
             '' order. Got:\<newline>    {reprlib.repr(array)}''))"
  by (simp add: check_sorted_default_axis arr_ndim_def axis_slice_1d all_cmp_def)

lemma check_range_unsorted:
  "arr_shape r = [2] \<Longrightarrow> arr_elems r = [lo, hi] \<Longrightarrow> \<not> scalar_cmp Le lo hi \<Longrightarrow>
   check_range x (PArray r) sl su name =
     Inl (ValueError,
       ''Range with {array.size} elements must be sorted in ascending order. Got:\<newline>    {reprlib.repr(array)}'')"
  by (simp add: check_range.simps and_then_def as_array_def check_shape_dim shape_matches_2
      check_sorted_pair sort_op_def ok_def)

lemma array0_facts:
  "arr_shape (array0 s) = []" "arr_elems (array0 s) = [s]"
  "(arr_dtype (array0 s) = dt_bool) = (\<exists>b. s = SBool b)"
  by (cases s; simp add: array0_def arr_elems_def arr_dtype_def)+

lemma np_all_array0: "np_all op a (array0 v) = list_all (\<lambda>x. scalar_cmp op x v) (arr_elems a)"
  by (simp add: np_all_def array0_facts)

lemma check_range_sorted:
  assumes "arr_shape r = [2]" "arr_elems r = [lo, hi]" "scalar_cmp Le lo hi"
    and "\<forall>b. lo \<noteq> SBool b" "\<forall>b. hi \<noteq> SBool b"
  shows "check_range (PArray a) (PArray r) sl su name =
     (if sl \<and> \<not> list_all (\<lambda>x. scalar_cmp Gt x lo) (arr_elems a)
      then Inl (ValueError, name @ '' values must all be greater than {value}.'')
      else if \<not> list_all (\<lambda>x. scalar_cmp Ge x lo) (arr_elems a)
      then Inl (ValueError, name @ '' values must all be greater than or equal to {value}.'')
      else if su \<and> \<not> list_all (\<lambda>x. scalar_cmp Lt x hi) (arr_elems a)
      then Inl (ValueError, name @ '' values must all be less than {value}.'')
      else if \<not> list_all (\<lambda>x. scalar_cmp Le x hi) (arr_elems a)
      then Inl (ValueError, name @ '' values must all be less than or equal to {value}.'')
      else ok)"
  using assms
  by (simp add: check_range.simps and_then_def as_array_def check_shape_dim shape_matches_2
      check_sorted_pair sort_op_def item_def check_greater_than_0d check_less_than_0d
      array0_facts np_all_array0 ok_def)

lemma as_array_int_pair:
  "as_array (PList [PInt lo, PInt hi]) = Inr (NDArray [2] (Ints [lo, hi]))"
  by (simp add: as_array_def and_then_def np_stack_def array_defs promote_def)

lemma as_array_PInt: "as_array (PInt k) = Inr (array0 (SInt k))"
  by (simp add: as_array_def)

lemma check_range_ints:
  "check_range (PInt k) (PList [PInt lo, PInt hi]) False False name =
     (if \<not> lo \<le> hi
      then Inl (ValueError,
        ''Range with {array.size} elements must be sorted in ascending order. Got:\<newline>    {reprlib.repr(array)}'')
      else if \<not> lo \<le> k
      then Inl (ValueError, name @ '' values must all be greater than or equal to {value}.'')
      else if \<not> k \<le> hi
      then Inl (ValueError, name @ '' values must all be less than or equal to {value}.'')
      else ok)"
proof -
  let ?r = "NDArray [2] (Ints [lo, hi])"
  have r: "arr_shape ?r = [2]" "arr_elems ?r = [SInt lo, SInt hi]"
    by (simp_all add: arr_elems_def)
  have eq: "check_range (PInt k) (PList [PInt lo, PInt hi]) False False name
      = check_range (PArray (array0 (SInt k))) (PArray ?r) False False name"
    by (rule check_range_as_array [OF as_array_int_pair as_array_PInt])
  show ?thesis
  proof (cases "lo \<le> hi")
    case True
    then have "scalar_cmp Le (SInt lo) (SInt hi)"
      by (simp add: scalar_cmp_def)
    from check_range_sorted [OF r this, of "array0 (SInt k)" False False name] True show ?thesis
      by (simp add: eq array0_facts scalar_cmp_def)
  next
    case False
    then have "\<not> scalar_cmp Le (SInt lo) (SInt hi)"
      by (simp add: scalar_cmp_def)
    from check_range_unsorted [OF r this] False show ?thesis
      by (simp add: eq)
  qed
qed

text \<open>
  C5.  \<open>check_range\<close> validates its range before it looks at the array: a range that
  is not of shape \<open>(2,)\<close> raises the \<open>ValueError\<close> of \<open>check_shape\<close>, and a range of two
  elements that do not ascend the \<open>ValueError\<close> of \<open>check_sorted\<close>, whatever the array
  argument is.  So \<open>check_range(x, rng=[10, 0])\<close> raises \<open>ValueError\<close> for every \<open>x\<close>;
  \<open>check_range(5, rng=[0, 10])\<close> returns and \<open>check_range(-1, rng=[0, 10])\<close> raises
  \<open>ValueError\<close>.
\<close>

theorem check_range_validates_range_first:
  "(arr_shape r \<noteq> [2] \<longrightarrow>
      check_range x (PArray r) sl su name =
        Inl (ValueError, ''Range has shape {array_shape} which is not allowed. Shape must be {shape[0]}.''))
   \<and> (arr_shape r = [2] \<and> arr_elems r = [lo, hi] \<and> \<not> scalar_cmp Le lo hi \<longrightarrow>
      check_range x (PArray r) sl su name =
        Inl (ValueError,
          ''Range with {array.size} elements must be sorted in ascending order. Got:\<newline>    {reprlib.repr(array)}''))
   \<and> raises ValueError (check_range x (PList [PInt 10, PInt 0]) sl su name)
   \<and> check_range (PInt 5) (PList [PInt 0, PInt 10]) False False name = ok
   \<and> raises ValueError (check_range (PInt (- 1)) (PList [PInt 0, PInt 10]) False False name)"
proof -
  let ?r = "NDArray [2] (Ints [10, 0])"
  have "\<not> scalar_cmp Le (SInt 10) (SInt 0)"
    by (simp add: scalar_cmp_def)
  then have "raises ValueError (check_range x (PArray ?r) sl su name)"
    using check_range_unsorted [of ?r "SInt 10" "SInt 0" x sl su name]
    by (simp add: arr_elems_def raises_def)
  then have descending: "raises ValueError (check_range x (PList [PInt 10, PInt 0]) sl su name)"
    by (simp add: check_range_rng_as_array [OF as_array_int_pair])
  have inside: "check_range (PInt 5) (PList [PInt 0, PInt 10]) False False name = ok"
    by (simp add: check_range_ints)
  have below: "raises ValueError (check_range (PInt (- 1)) (PList [PInt 0, PInt 10]) False False name)"
    by (simp add: check_range_ints raises_def)
  from descending inside below show ?thesis
    using check_range_bad_shape check_range_unsorted by blast
qed

theorem check_range_validates_range_first_witness:
  "arr_shape (NDArray [3] (Ints [1, 2, 3])) \<noteq> [2]
   \<and> check_range PNone (PArray (NDArray [3] (Ints [1, 2, 3]))) False False ''Array'' =
        Inl (ValueError, ''Range has shape {array_shape} which is not allowed. Shape must be {shape[0]}.'')
   \<and> arr_shape (NDArray [2] (Floats [NaN, Fin 1])) = [2]
   \<and> arr_elems (NDArray [2] (Floats [NaN, Fin 1])) = [SFloat NaN, SFloat (Fin 1)]
   \<and> \<not> scalar_cmp Le (SFloat NaN) (SFloat (Fin 1))
   \<and> check_range PNone (PArray (NDArray [2] (Floats [NaN, Fin 1]))) False False ''Array'' =
        Inl (ValueError,
          ''Range with {array.size} elements must be sorted in ascending order. Got:\<newline>    {reprlib.repr(array)}'')"
proof -
  have h: "arr_shape (NDArray [3] (Ints [1, 2, 3])) \<noteq> [2]"
    "arr_shape (NDArray [2] (Floats [NaN, Fin 1])) = [2]"
    "arr_elems (NDArray [2] (Floats [NaN, Fin 1])) = [SFloat NaN, SFloat (Fin 1)]"
    "\<not> scalar_cmp Le (SFloat NaN) (SFloat (Fin 1))"
    by (simp_all add: arr_elems_def scalar_cmp_def float_le_def)
  from h check_range_validates_range_first
      [of "NDArray [3] (Ints [1, 2, 3])" PNone False False "''Array''"]
    check_range_validates_range_first
      [of "NDArray [2] (Floats [NaN, Fin 1])" PNone False False "''Array''"
        "SFloat NaN" "SFloat (Fin 1)"]
  show ?thesis
    by blast
qed

subsection \<open>Slices along an axis\<close>








subsection \<open>check_sorted\<close>

lemma check_number_PInt: "check_number (PInt k) (PStr nm) = ok"
  by (simp add: check_number_def check_instance_def isinstance_def issubclass_def Let_def)

lemma check_integer_PInt: "check_integer (PInt k) False nm = ok"
  by (simp add: check_integer_def result_defs array_defs cmp_defs)

lemma list_index_PInt:
  "- int n \<le> k \<Longrightarrow> k < int n \<Longrightarrow> list_index n (PInt k) = Inr (axis_index n k)"
  by (simp add: list_index_def axis_index_def isinstance_def issubclass_def Let_def)

lemma py_in_axis_PInt: "py_in (PInt k) [PInt (- 1), PNone] = (k = - 1)"
proof -
  have "py_eq (PInt k) (PInt (- 1)) = (k = - 1)"
    by (rule py_eq_PInt)
  moreover have "\<not> py_eq (PInt k) PNone"
    by (simp add: py_eq_def)
  ultimately show ?thesis
    by (simp add: py_in_def)
qed

lemma check_sorted_PInt:
  assumes "0 < arr_ndim a"
  shows "check_sorted (PArray a) ascending strict (PInt k) name =
     (if k < - int (arr_ndim a) \<or> int (arr_ndim a) - 1 < k
      then Inl (ValueError, ''Axis {axis} is out of bounds for ndim {ndim}.'')
      else
        let j = axis_index (arr_ndim a) k; n = arr_shape a ! j in
        if all_cmp (sort_op ascending strict)
             (axis_slice (arr_shape a) j 0 (n - 1) (arr_elems a))
             (axis_slice (arr_shape a) j 1 n (arr_elems a))
        then ok
        else Inl (sorted_error name ascending strict))"
proof (cases "k = - 1")
  case True
  with assms have "list_index (arr_ndim a) (PInt k) = Inr (axis_index (arr_ndim a) k)"
    by (simp add: list_index_PInt)
  with assms True show ?thesis
    by (simp add: check_sorted.simps as_array_def and_then_def py_in_axis_PInt Let_def
        sort_op_def sorted_error_def)
next
  case False
  show ?thesis
  proof (cases "k < - int (arr_ndim a) \<or> int (arr_ndim a) - 1 < k")
    case True
    with assms False show ?thesis
      by (auto simp add: check_sorted.simps as_array_def and_then_def py_in_axis_PInt Let_def
          check_number_PInt check_integer_PInt check_range_ints ok_def)
  next
    case inside: False
    then have "list_index (arr_ndim a) (PInt k) = Inr (axis_index (arr_ndim a) k)"
      by (simp add: list_index_PInt)
    with assms False inside show ?thesis
      by (simp add: check_sorted.simps as_array_def and_then_def py_in_axis_PInt Let_def
          check_number_PInt check_integer_PInt check_range_ints ok_def
          sort_op_def sorted_error_def)
  qed
qed

lemma sorted_error_not_bounds:
  "Inl (sorted_error name ascending strict) \<noteq>
     (Inl (ValueError, ''Axis {axis} is out of bounds for ndim {ndim}.'') :: unit result)"
proof
  assume "Inl (sorted_error name ascending strict) =
     (Inl (ValueError, ''Axis {axis} is out of bounds for ndim {ndim}.'') :: unit result)"
  then have "last (snd (sorted_error name ascending strict))
      = last ''Axis {axis} is out of bounds for ndim {ndim}.''"
    by simp
  then show False
    by (simp add: sorted_error_def)
qed




lemma check_sorted_PStr:
  "0 < arr_ndim a \<Longrightarrow> raises TypeError (check_sorted (PArray a) ascending strict (PStr s) name)"
  by (simp add: check_sorted.simps as_array_def and_then_def py_in_def py_eq_def Let_def
      raises_def check_number_def check_instance_def isinstance_def issubclass_def)

lemma floor_not_minus_one: "of_int \<lfloor>r\<rfloor> \<noteq> r \<Longrightarrow> r \<noteq> (- 1 :: rat)"
proof
  assume n: "of_int \<lfloor>r\<rfloor> \<noteq> r" and r: "r = - 1"
  have "(- 1 :: rat) = of_int (- 1)" by simp
  then have "rat_of_int \<lfloor>- 1 :: rat\<rfloor> = - 1"
    by (simp only: floor_of_int)
  with n r show False by simp
qed

lemma check_integer_fraction:
  "of_int \<lfloor>r\<rfloor> \<noteq> r \<Longrightarrow>
   check_integer (PFloat (Fin r)) False ''Axis'' =
     Inl (ValueError, ''Axis must have integer-like values.'')"
  by (simp add: check_integer_def result_defs array_defs cmp_defs eq_commute [of r])

lemma check_sorted_fraction:
  assumes "0 < arr_ndim a" and "of_int \<lfloor>r\<rfloor> \<noteq> r"
  shows "check_sorted (PArray a) ascending strict (PFloat (Fin r)) name =
           Inl (ValueError, ''Axis must have integer-like values.'')"
proof -
  from floor_not_minus_one [OF assms(2)]
  have "\<not> py_in (PFloat (Fin r)) [PInt (- 1), PNone]"
    by (simp add: py_in_def py_eq_def)
  moreover have "check_number (PFloat (Fin r)) (PStr ''Axis'') = ok"
    by (simp add: check_number_def check_instance_def isinstance_def issubclass_def Let_def)
  ultimately show ?thesis
    using assms(1) check_integer_fraction [OF assms(2)]
    by (simp add: check_sorted.simps as_array_def and_then_def Let_def ok_def)
qed

text \<open>
  C6.  On an array of rank at least 1, an integer axis outside \<open>[-ndim, ndim - 1]\<close>
  makes \<open>check_sorted\<close> raise the \<open>ValueError\<close> "Axis ... is out of bounds for ndim
  ...", and an axis inside that interval never raises this error.  The bounds are
  looked at after \<open>check_number\<close> and \<open>check_integer\<close> have accepted the axis, which
  they do for every integer: an axis that is no number raises the \<open>TypeError\<close> of
  \<open>check_number\<close>, and a float with a fractional part the \<open>ValueError\<close> of
  \<open>check_integer\<close>, wherever they lie.
\<close>

theorem check_sorted_axis_out_of_bounds:
  "0 < arr_ndim a \<Longrightarrow>
     ((k < - int (arr_ndim a) \<or> int (arr_ndim a) - 1 < k) \<longrightarrow>
        check_sorted (PArray a) ascending strict (PInt k) name =
          Inl (ValueError, ''Axis {axis} is out of bounds for ndim {ndim}.''))
   \<and> ((- int (arr_ndim a) \<le> k \<and> k \<le> int (arr_ndim a) - 1) \<longrightarrow>
        check_sorted (PArray a) ascending strict (PInt k) name \<noteq>
          Inl (ValueError, ''Axis {axis} is out of bounds for ndim {ndim}.''))
   \<and> check_number (PInt k) (PStr ''Axis'') = ok
   \<and> check_integer (PInt k) False ''Axis'' = ok
   \<and> raises TypeError (check_sorted (PArray a) ascending strict (PStr s) name)
   \<and> (of_int \<lfloor>r\<rfloor> \<noteq> r \<longrightarrow>
        check_sorted (PArray a) ascending strict (PFloat (Fin r)) name =
          Inl (ValueError, ''Axis must have integer-like values.''))"
proof -
  assume nd: "0 < arr_ndim a"
  have inside: "check_sorted (PArray a) ascending strict (PInt k) name \<noteq>
          Inl (ValueError, ''Axis {axis} is out of bounds for ndim {ndim}.'')"
    if "- int (arr_ndim a) \<le> k \<and> k \<le> int (arr_ndim a) - 1"
    using that sorted_error_not_bounds [of name ascending strict]
    by (simp add: check_sorted_PInt [OF nd] Let_def ok_def)
  from nd inside show ?thesis
    by (simp add: check_sorted_PInt [OF nd] check_number_PInt check_integer_PInt
        check_sorted_PStr check_sorted_fraction)
qed


theorem check_sorted_axis_out_of_bounds_witness:
  "0 < arr_ndim (NDArray [2, 2] (Ints [1, 2, 3, 4]))
   \<and> int (arr_ndim (NDArray [2, 2] (Ints [1, 2, 3, 4]))) - 1 < 2
   \<and> check_sorted (PArray (NDArray [2, 2] (Ints [1, 2, 3, 4]))) True False (PInt 2) ''Array'' =
        Inl (ValueError, ''Axis {axis} is out of bounds for ndim {ndim}.'')
   \<and> - int (arr_ndim (NDArray [2, 2] (Ints [1, 2, 3, 4]))) \<le> - 2
   \<and> - 2 \<le> int (arr_ndim (NDArray [2, 2] (Ints [1, 2, 3, 4]))) - 1
   \<and> check_sorted (PArray (NDArray [2, 2] (Ints [1, 2, 3, 4]))) True False (PInt (- 2)) ''Array'' \<noteq>
        Inl (ValueError, ''Axis {axis} is out of bounds for ndim {ndim}.'')
   \<and> rat_of_int \<lfloor>5 / 2 :: rat\<rfloor> \<noteq> 5 / 2
   \<and> check_sorted (PArray (NDArray [2, 2] (Ints [1, 2, 3, 4]))) True False (PFloat (Fin (5 / 2)))
        ''Array'' = Inl (ValueError, ''Axis must have integer-like values.'')"
proof -
  let ?a = "NDArray [2, 2] (Ints [1, 2, 3, 4])"
  have nd: "0 < arr_ndim ?a" "int (arr_ndim ?a) - 1 < 2" "- int (arr_ndim ?a) \<le> - 2"
    "- 2 \<le> int (arr_ndim ?a) - 1"
    by (simp_all add: arr_ndim_def)
  have half: "rat_of_int \<lfloor>5 / 2 :: rat\<rfloor> \<noteq> 5 / 2"
    by code_simp
  from nd half check_sorted_axis_out_of_bounds [OF nd(1), of 2 True False "''Array''" "''s''" "5 / 2"]
    check_sorted_axis_out_of_bounds [OF nd(1), of "- 2" True False "''Array''" "''s''" "5 / 2"]
  show ?thesis
    by blast
qed


text \<open>
  With \<open>axis=None\<close> the array is flattened in the order of its memory layout: the
  array \<open>[[1, 3], [2, 4]]\<close> is sorted when it is Fortran-contiguous (its elements lie
  as 1, 2, 3, 4) and not when it is C-contiguous.
\<close>

lemma check_sorted_flattened_layout:
  "check_sorted (PArray (NDArrayF [2, 2] (Ints [1, 3, 2, 4]))) True False PNone ''Array'' = ok
   \<and> raises ValueError
        (check_sorted (PArray (NDArray [2, 2] (Ints [1, 3, 2, 4]))) True False PNone ''Array'')"
  by (simp add: check_sorted.simps as_array_def and_then_def Let_def arr_elems_def arr_ndim_def
      py_in_def py_eq_def list_index_def isinstance_def issubclass_def axis_slice_def
      all_cmp_def scalar_cmp_def ok_def raises_def numeral_2_eq_2 upt_rec)





subsection \<open>check_ndim\<close>

lemma as_array_cast: "as_array v = cast_to_numpy v"
  by (cases v) (simp_all add: as_array_def)

lemma np_atleast_1d_cast:
  "cast_to_numpy v = Inr nd \<Longrightarrow> np_atleast_1d v = Inr (atleast nd)"
  by (simp add: np_atleast_1d_def and_then_def)

lemma np_contains_atleast: "np_contains (atleast nd) x = np_contains nd x"
  by (simp add: np_contains_def arr_elems_def atleast_def)

lemma cast_ranks: "cast_to_numpy (PList [PInt 0, PInt 1]) = Inr (NDArray [2] (Ints [0, 1]))"
  by (simp add: and_then_def np_stack_def array_defs promote_def)

lemma np_contains_ranks:
  "np_contains (NDArray [2] (Ints [0, 1])) k = (k = 0 \<or> k = 1)"
  by (auto simp add: np_contains_def arr_elems_def scalar_cmp_def)

lemma check_integer_strict_cast:
  "cast_to_numpy v = Inr nd \<Longrightarrow>
   check_integer v True name = (if arr_dtype nd = dt_int64 then ok else Inl ndim_dtype_error)"
  by (cases "arr_data nd")
    (simp_all add: check_integer_def as_array_cast and_then_def check_subdtype_def
      np_issubdtype_def arr_dtype_def ndim_dtype_error_def ok_def)

lemma check_ndim_unfold:
  assumes "cast_to_numpy ndim = Inr nd" and "cast_to_numpy array = Inr a"
  shows "check_ndim array ndim name =
     (if np_contains nd (int (arr_ndim a)) then ok
      else
        and_then (check_ndim ndim (PList [PInt 0, PInt 1]) ''ndim'')
          (\<lambda>u. and_then
             (if np_len (atleast nd) = 1
              then and_then (item (atleast nd) 0) (\<lambda>x. check_integer x True ''ndim'')
              else check_integer ndim True ''ndim'')
             (\<lambda>u.
                Inl (ValueError,
                  name @ '' has the incorrect number of dimensions. '' @
                  ''Got {array_ndim}, expected '' @
                  (if np_len (atleast nd) = 1 then ''{ndim}.'' else ''one of {ndim}.'')))))"
  by (subst check_ndim.simps)
    (simp add: np_atleast_1d_cast [OF assms(1)] assms(2) and_then_def np_contains_atleast
      del: cast_to_numpy.simps)

lemma check_ndim_ranks_self:
  "check_ndim (PList [PInt 0, PInt 1]) (PList [PInt 0, PInt 1]) name = ok"
proof -
  have "np_contains (NDArray [2] (Ints [0, 1])) (int (arr_ndim (NDArray [2] (Ints [0, 1]))))"
    by (simp add: np_contains_ranks arr_ndim_def)
  then show ?thesis
    by (subst check_ndim_unfold [OF cast_ranks cast_ranks]) simp
qed

lemma check_ndim_of_ndim:
  assumes "cast_to_numpy ndim = Inr nd"
  shows "check_ndim ndim (PList [PInt 0, PInt 1]) ''ndim'' =
     (if arr_ndim nd < 2 then ok else Inl ndim_rank_error)"
proof -
  have c: "np_contains (NDArray [2] (Ints [0, 1])) (int (arr_ndim nd)) = (arr_ndim nd < 2)"
    by (auto simp add: np_contains_ranks)
  have l: "np_len (atleast (NDArray [2] (Ints [0, 1]))) = 2"
    by (simp add: np_len_def atleast_def)
  have i: "check_integer (PList [PInt 0, PInt 1]) True ''ndim'' = ok"
    by (simp add: check_integer_strict_cast [OF cast_ranks] arr_dtype_def)
  show ?thesis
    by (subst check_ndim_unfold [OF cast_ranks assms])
      (simp add: c l check_ndim_ranks_self i and_then_def ok_def ndim_rank_error_def)
qed

lemma first_item_dtype:
  "elems d \<noteq> [] \<Longrightarrow> data_dtype (scalar_data (elems d ! 0)) = data_dtype d"
  by (cases d) (auto simp add: nth_map neq_Nil_conv)

lemma check_integer_first_item:
  assumes "arr_elems a \<noteq> []"
  shows "and_then (item a 0) (\<lambda>x. check_integer x True name) =
     (if arr_dtype a = dt_int64 then ok else Inl ndim_dtype_error)"
proof -
  from assms have i: "item a 0 = Inr (PArray (array0 (arr_elems a ! 0)))"
    by (simp add: item_def)
  have c: "cast_to_numpy (PArray (array0 (arr_elems a ! 0))) = Inr (array0 (arr_elems a ! 0))"
    by simp
  from assms have "arr_dtype (array0 (arr_elems a ! 0)) = arr_dtype a"
    by (simp add: arr_dtype_def array0_def arr_elems_def first_item_dtype)
  then show ?thesis
    by (simp add: i and_then_def check_integer_strict_cast [OF c])
qed


lemma atleast_facts:
  "arr_elems (atleast nd) = arr_elems nd" "arr_dtype (atleast nd) = arr_dtype nd"
  by (simp_all add: atleast_def arr_elems_def arr_dtype_def)

lemma atleast_len_1_nonempty:
  "wf_array nd \<Longrightarrow> np_len (atleast nd) = 1 \<Longrightarrow> arr_ndim nd < 2 \<Longrightarrow> arr_elems nd \<noteq> []"
  by (cases "arr_shape nd"; cases "tl (arr_shape nd)")
    (auto simp add: wf_array_def arr_size_def np_len_def atleast_def arr_ndim_def)

lemma check_ndim_cases:
  assumes nd: "cast_to_numpy ndim = Inr nd" and a: "cast_to_numpy array = Inr a"
    and wf: "wf_array nd"
  shows "check_ndim array ndim name =
     (if np_contains nd (int (arr_ndim a)) then ok
      else if 2 \<le> arr_ndim nd then Inl ndim_rank_error
      else if arr_dtype nd \<noteq> dt_int64 then Inl ndim_dtype_error
      else Inl (ValueError,
             name @ '' has the incorrect number of dimensions. '' @
             ''Got {array_ndim}, expected '' @
             (if np_len (atleast nd) = 1 then ''{ndim}.'' else ''one of {ndim}.'')))"
proof (cases "np_len (atleast nd) = 1 \<and> arr_ndim nd < 2")
  case True
  with wf have "arr_elems (atleast nd) \<noteq> []"
    by (simp add: atleast_facts atleast_len_1_nonempty)
  from check_integer_first_item [OF this, of "''ndim''"] True show ?thesis
    by (simp add: check_ndim_unfold [OF nd a] check_ndim_of_ndim [OF nd] and_then_def
        atleast_facts ok_def)
next
  case False
  then show ?thesis
    by (auto simp add: check_ndim_unfold [OF nd a] check_ndim_of_ndim [OF nd] and_then_def
        check_integer_strict_cast [OF nd] ok_def)
qed


text \<open>
  C3, as the code has it.  \<open>check_ndim\<close> returns exactly when the rank of the array
  is among the entries of \<open>ndim\<close>, and then it has not looked at \<open>ndim\<close> any further.
  Only when the rank is not among them does it check \<open>ndim\<close> itself: an \<open>ndim\<close> of
  rank 2 or more raises \<open>ValueError\<close>, one whose dtype is not integral raises
  \<open>TypeError\<close>, and otherwise the \<open>ValueError\<close> for the wrong number of dimensions is
  raised.  The entries are not checked for being non-negative.
\<close>

theorem check_ndim_validates_ndim_on_mismatch:
  "cast_to_numpy ndim = Inr nd \<Longrightarrow> cast_to_numpy array = Inr a \<Longrightarrow> wf_array nd \<Longrightarrow>
     check_ndim array ndim name =
       (if np_contains nd (int (arr_ndim a)) then ok
        else if 2 \<le> arr_ndim nd then Inl ndim_rank_error
        else if arr_dtype nd \<noteq> dt_int64 then Inl ndim_dtype_error
        else Inl (ValueError,
               name @ '' has the incorrect number of dimensions. '' @
               ''Got {array_ndim}, expected '' @
               (if np_len (atleast nd) = 1 then ''{ndim}.'' else ''one of {ndim}.'')))
   \<and> (check_ndim array ndim name = ok) = np_contains nd (int (arr_ndim a))"
proof -
  assume h: "cast_to_numpy ndim = Inr nd" "cast_to_numpy array = Inr a" "wf_array nd"
  note c = check_ndim_cases [OF h, of name]
  have "(check_ndim array ndim name = ok) = np_contains nd (int (arr_ndim a))"
    unfolding c by (simp add: ok_def)
  with c show ?thesis
    by (intro conjI)
qed

theorem check_ndim_validates_ndim_on_mismatch_witness:
  "cast_to_numpy (PList [PFloat (Fin 1)]) = Inr (NDArray [1] (Floats [Fin 1]))
   \<and> cast_to_numpy (PList [PList [PInt 1, PInt 2]]) = Inr (NDArray [1, 2] (Ints [1, 2]))
   \<and> wf_array (NDArray [1] (Floats [Fin 1]))
   \<and> check_ndim (PList [PList [PInt 1, PInt 2]]) (PList [PFloat (Fin 1)]) ''Array''
        = Inl ndim_dtype_error"
proof -
  have n: "cast_to_numpy (PList [PFloat (Fin 1)]) = Inr (NDArray [1] (Floats [Fin 1]))"
    by (simp add: and_then_def np_stack_def array_defs promote_def)
  have a: "cast_to_numpy (PList [PList [PInt 1, PInt 2]]) = Inr (NDArray [1, 2] (Ints [1, 2]))"
    by (simp add: and_then_def np_stack_def array_defs promote_def)
  have wf: "wf_array (NDArray [1] (Floats [Fin 1]))"
    by (simp add: wf_array_def arr_size_def arr_elems_def)
  have "bitlen 2 \<le> 53" by code_simp
  then have "float64_of_int 2 = Fin 2"
    by (simp add: float64_of_int_def)
  then have "\<not> np_contains (NDArray [1] (Floats [Fin 1]))
       (int (arr_ndim (NDArray [1, 2] (Ints [1, 2]))))"
    by (simp add: np_contains_def arr_elems_def arr_ndim_def scalar_cmp_def)
  with check_ndim_validates_ndim_on_mismatch [OF n a wf, of "''Array''"]
  have "check_ndim (PList [PList [PInt 1, PInt 2]]) (PList [PFloat (Fin 1)]) ''Array''
        = Inl ndim_dtype_error"
    by (simp add: arr_ndim_def arr_dtype_def)
  with n a wf show ?thesis
    by (intro conjI)
qed

text \<open>
  The claim of C3 that a malformed \<open>ndim\<close> raises whether or not the rank matches
  fails: for a 1-d array, \<open>ndim=[1, -5]\<close>, with a negative entry, and
  \<open>ndim=[1.0, 2.5]\<close>, with entries that are no integers, are accepted, because the
  rank 1 is among the entries.
\<close>

theorem check_ndim_accepts_malformed_ndim_on_match:
  "check_ndim (PList [PInt 7]) (PList [PInt 1, PInt (- 5)]) ''Array'' = ok
   \<and> check_ndim (PList [PInt 7]) (PList [PFloat (Fin 1), PFloat (Fin (5 / 2))]) ''Array'' = ok"
proof
  show "check_ndim (PList [PInt 7]) (PList [PInt 1, PInt (- 5)]) ''Array'' = ok"
  proof -
  have n: "cast_to_numpy (PList [PInt 1, PInt (- 5)]) = Inr (NDArray [2] (Ints [1, - 5]))"
    by (simp add: and_then_def np_stack_def array_defs promote_def)
  have a: "cast_to_numpy (PList [PInt 7]) = Inr (NDArray [1] (Ints [7]))"
    by (simp add: and_then_def np_stack_def array_defs promote_def)
  show ?thesis
    by (simp add: check_ndim_unfold [OF n a] np_contains_def arr_elems_def arr_ndim_def
        scalar_cmp_def del: cast_to_numpy.simps)
qed
  show "check_ndim (PList [PInt 7]) (PList [PFloat (Fin 1), PFloat (Fin (5 / 2))]) ''Array'' = ok"
  proof -
  have n: "cast_to_numpy (PList [PFloat (Fin 1), PFloat (Fin (5 / 2))])
      = Inr (NDArray [2] (Floats [Fin 1, Fin (5 / 2)]))"
    by (simp add: and_then_def np_stack_def array_defs promote_def)
  have a: "cast_to_numpy (PList [PInt 7]) = Inr (NDArray [1] (Ints [7]))"
    by (simp add: and_then_def np_stack_def array_defs promote_def)
  have "bitlen 1 \<le> 53" by code_simp
  then have "float64_of_int 1 = Fin 1"
    by (simp add: float64_of_int_def)
  then show ?thesis
    by (simp add: check_ndim_unfold [OF n a] np_contains_def arr_elems_def arr_ndim_def
        scalar_cmp_def del: cast_to_numpy.simps)
qed
qed

end
